theory Spec2Isabelle
  imports Complex_Main "HOL-Library.AList"
begin

section \<open>JavaScript values used by the planner\<close>

text \<open>
  The planner is JavaScript. Its numbers are IEEE doubles; here hours and weights are
  exact reals and minute counts are integers, so rounding is the rounding the code asks
  for (\<open>toFixed(2)\<close>, \<open>Math.round\<close>, \<open>Math.ceil\<close>) and never the rounding of the
  floating-point unit. The only exception the modelled code can raise is a \<open>TypeError\<close>
  (a property read on \<open>undefined\<close> or \<open>null\<close>).
\<close>

datatype error = TypeError

text \<open>An identifier-valued property: absent (\<open>undefined\<close>), \<open>null\<close>, or a string.
  Equality of the datatype is JavaScript's \<open>===\<close> on these values.\<close>

datatype jsid = Undefined | Null | Str string

text \<open>A minute count that may be missing or not a number.\<close>

datatype jsnum = Undef | NaN | Num int

text \<open>\<open>Number.prototype.toFixed(2)\<close> followed by \<open>parseFloat\<close>: the nearest multiple of
  1/100, a tie going away from zero.\<close>

definition toFixed2 :: "real \<Rightarrow> real" where
  "toFixed2 x =
     (if 0 \<le> x then of_int \<lfloor>x * 100 + 1 / 2\<rfloor> / 100
      else - (of_int \<lfloor>(- x) * 100 + 1 / 2\<rfloor> / 100))"

text \<open>\<open>Math.round\<close>: the nearest integer, a tie going up.\<close>

definition Math_round :: "real \<Rightarrow> int" where
  "Math_round x = \<lfloor>x + 1 / 2\<rfloor>"

text \<open>\<open>Math.min(x, k)\<close> and \<open>Math.max(x, k)\<close> with a first argument that may be
  \<open>undefined\<close>: \<open>undefined\<close> converts to \<open>NaN\<close>, and \<open>NaN\<close> is contagious.\<close>

definition Math_min :: "jsnum \<Rightarrow> int \<Rightarrow> jsnum" where
  "Math_min x k = (case x of Num n \<Rightarrow> Num (min n k) | _ \<Rightarrow> NaN)"

definition Math_max :: "jsnum \<Rightarrow> int \<Rightarrow> jsnum" where
  "Math_max x k = (case x of Num n \<Rightarrow> Num (max n k) | _ \<Rightarrow> NaN)"

text \<open>\<open>table[key] || dflt\<close> on an object literal of numbers: own properties only.\<close>

definition lookup_or :: "(string \<times> real) list \<Rightarrow> string \<Rightarrow> real \<Rightarrow> real" where
  "lookup_or table k dflt =
     (case map_of table k of None \<Rightarrow> dflt | Some v \<Rightarrow> if v \<noteq> 0 then v else dflt)"

text \<open>\<open>Array.prototype.map\<close> with a callback that may throw: the first exception
  leaves the loop.\<close>

fun map_throwing :: "('a \<Rightarrow> error + 'b) \<Rightarrow> 'a list \<Rightarrow> error + 'b list" where
  "map_throwing f [] = Inr []"
| "map_throwing f (x # xs) =
     (case f x of
        Inl e \<Rightarrow> Inl e
      | Inr y \<Rightarrow> (case map_throwing f xs of Inl e \<Rightarrow> Inl e | Inr ys \<Rightarrow> Inr (y # ys)))"

text \<open>\<open>Array.prototype.sort\<close> is stable; \<open>cmp a b \<le> 0\<close> keeps \<open>a\<close> before \<open>b\<close>.
  A comparator result of \<open>NaN\<close> counts as 0 and is written so in the comparators.\<close>

fun sort_insert :: "('a \<Rightarrow> 'a \<Rightarrow> int) \<Rightarrow> 'a \<Rightarrow> 'a list \<Rightarrow> 'a list" where
  "sort_insert cmp x [] = [x]"
| "sort_insert cmp x (y # ys) =
     (if cmp x y \<le> 0 then x # y # ys else y # sort_insert cmp x ys)"

definition array_sort :: "('a \<Rightarrow> 'a \<Rightarrow> int) \<Rightarrow> 'a list \<Rightarrow> 'a list" where
  "array_sort cmp xs = foldr (sort_insert cmp) xs []"


section \<open>config.js\<close>

definition STUDY :: string where "STUDY = ''study''"
definition BREAK :: string where "BREAK = ''break''"
definition REVISION :: string where "REVISION = ''revision''"

definition PRIORITY_WEIGHTS :: "(string \<times> real) list" where
  "PRIORITY_WEIGHTS = [(''high'', 3), (''medium'', 2), (''low'', 1)]"

definition DIFFICULTY_WEIGHTS :: "(string \<times> real) list" where
  "DIFFICULTY_WEIGHTS = [(''hard'', 3 / 2), (''medium'', 1), (''easy'', 4 / 5)]"

definition MORNING_PEAK :: "int list" where "MORNING_PEAK = [9, 12]"
definition AVOID_LATE_NIGHT :: int where "AVOID_LATE_NIGHT = 22"
definition MAX_SESSIONS_WITHOUT_LONG_BREAK :: int where "MAX_SESSIONS_WITHOUT_LONG_BREAK = 4"
definition LONG_BREAK_DURATION :: int where "LONG_BREAK_DURATION = 30"
definition REVISION_FREQUENCY :: int where "REVISION_FREQUENCY = 3"

definition STUDY_PLAN :: string where "STUDY_PLAN = ''smartStudyPlan''"
definition USER_PREFS :: string where "USER_PREFS = ''studyPreferences''"
definition PROGRESS :: string where "PROGRESS = ''studyProgress''"


section \<open>rules.js: the rules engine\<close>

record subject =
  subject_id :: string
  name :: string
  priority :: string
  difficulty :: string
  hoursNeeded :: real
  hoursCompleted :: real
  sessionsCompleted :: int
  weight :: real

text \<open>The \<open>context\<close> argument of the rules: an object whose properties may all be
  absent. \<open>default_context\<close> is the default parameter value \<open>{}\<close>.\<close>

record rule_context =
  ctx_defaultSessionLength :: jsnum
  ctx_lastScheduledSubject :: jsid
  ctx_daysSinceLastStudy :: "(string \<Rightarrow> int option) option"
  ctx_currentDay :: "int option"

definition default_context :: rule_context where
  "default_context =
     \<lparr>ctx_defaultSessionLength = Undef, ctx_lastScheduledSubject = Undefined,
      ctx_daysSinceLastStudy = None, ctx_currentDay = None\<rparr>"

text \<open>What a rule returns, one constructor per rule:
  \<open>{weightMultiplier}\<close>, \<open>{adaptedSessionLength, breakMultiplier}\<close>,
  \<open>{preferredTimeSlots}\<close>, \<open>{avoidConsecutive, coolDown}\<close>,
  \<open>{needsRevision, revisionPriority}\<close>.\<close>

datatype rule_result =
    PriorityResult real
  | DifficultyResult jsnum real
  | TimeResult "int list"
  | ConsecutiveResult bool nat
  | RevisionResult bool real

fun weightMultiplier :: "rule_result \<Rightarrow> real option" where
  "weightMultiplier (PriorityResult w) = Some w"
| "weightMultiplier _ = None"

fun revisionPriority :: "rule_result \<Rightarrow> real option" where
  "revisionPriority (RevisionResult n p) = Some p"
| "revisionPriority _ = None"

definition priority_allocation :: "subject \<Rightarrow> rule_context \<Rightarrow> error + rule_result" where
  "priority_allocation s c = Inr (PriorityResult (lookup_or PRIORITY_WEIGHTS (priority s) 1))"

definition difficulty_adaptation :: "subject \<Rightarrow> rule_context \<Rightarrow> error + rule_result" where
  "difficulty_adaptation s c =
     (let sessionLength = ctx_defaultSessionLength c in
      if difficulty s = ''hard'' then Inr (DifficultyResult (Math_min sessionLength 45) (3 / 2))
      else if difficulty s = ''easy'' then Inr (DifficultyResult (Math_max sessionLength 60) (4 / 5))
      else Inr (DifficultyResult sessionLength 1))"

definition time_preference :: "subject \<Rightarrow> rule_context \<Rightarrow> error + rule_result" where
  "time_preference s c =
     (if difficulty s = ''hard'' \<or> priority s = ''high'' then Inr (TimeResult MORNING_PEAK)
      else if difficulty s = ''medium'' \<or> priority s = ''medium'' then Inr (TimeResult [13, 17])
      else Inr (TimeResult [18, 20]))"

definition consecutive_avoidance :: "subject \<Rightarrow> rule_context \<Rightarrow> error + rule_result" where
  "consecutive_avoidance s c =
     (let avoidConsecutive = (ctx_lastScheduledSubject c = Str (subject_id s)) in
      Inr (ConsecutiveResult avoidConsecutive (if avoidConsecutive then 2 else 0)))"

text \<open>\<open>context.daysSinceLastStudy[subject.id]\<close> reads a property of
  \<open>context.daysSinceLastStudy\<close>: a \<open>TypeError\<close> when that is \<open>undefined\<close>.\<close>

definition revision_scheduling :: "subject \<Rightarrow> rule_context \<Rightarrow> error + rule_result" where
  "revision_scheduling s c =
     (case ctx_daysSinceLastStudy c of
        None \<Rightarrow> Inl TypeError
      | Some days \<Rightarrow>
          (let daysSinceLastStudy = (case days (subject_id s) of None \<Rightarrow> 0 | Some n \<Rightarrow> n);
               needsRevision = (daysSinceLastStudy \<ge> REVISION_FREQUENCY)
           in Inr (RevisionResult needsRevision (if needsRevision then 3 / 2 else 1))))"

definition rules :: "(string \<times> (subject \<Rightarrow> rule_context \<Rightarrow> error + rule_result)) list" where
  "rules =
     [(''priority_allocation'', priority_allocation),
      (''difficulty_adaptation'', difficulty_adaptation),
      (''time_preference'', time_preference),
      (''consecutive_avoidance'', consecutive_avoidance),
      (''revision_scheduling'', revision_scheduling)]"

text \<open>The body of \<open>this.rules.forEach\<close>: the running \<open>totalWeight\<close> and the
  \<open>adjustments\<close> object (property order is insertion order).\<close>

fun apply_rules ::
  "(string \<times> (subject \<Rightarrow> rule_context \<Rightarrow> error + rule_result)) list \<Rightarrow> subject \<Rightarrow> rule_context \<Rightarrow>
   real \<times> (string \<times> rule_result) list \<Rightarrow> error + real \<times> (string \<times> rule_result) list" where
  "apply_rules [] s c acc = Inr acc"
| "apply_rules (rule # rest) s c (totalWeight, adjustments) =
     (case snd rule s c of
        Inl e \<Rightarrow> Inl e
      | Inr result \<Rightarrow>
          (let w1 = (case weightMultiplier result of
                       None \<Rightarrow> totalWeight
                     | Some m \<Rightarrow> if m \<noteq> 0 then totalWeight * m else totalWeight);
               w2 = (case revisionPriority result of
                       None \<Rightarrow> w1
                     | Some p \<Rightarrow> if p \<noteq> 0 then w1 * p else w1)
           in apply_rules rest s c (w2, AList.update (fst rule) result adjustments)))"

record weighted_subject = subject +
  adjustments :: "(string \<times> rule_result) list"

text \<open>The callback of \<open>subjects.map\<close> in \<open>calculateSubjectWeights\<close>; the result is the
  object \<open>{...subject, weight, adjustments}\<close>.\<close>

definition weigh_subject :: "rule_context \<Rightarrow> subject \<Rightarrow> error + weighted_subject" where
  "weigh_subject c s =
     (case apply_rules rules s c (1, []) of
        Inl e \<Rightarrow> Inl e
      | Inr (totalWeight, adj) \<Rightarrow>
          Inr (subject.extend
                 (s\<lparr>weight := toFixed2 (totalWeight * lookup_or DIFFICULTY_WEIGHTS (difficulty s) 1)\<rparr>)
                 (weighted_subject.fields adj)))"

definition calculateSubjectWeights ::
  "subject list \<Rightarrow> rule_context \<Rightarrow> error + weighted_subject list" where
  "calculateSubjectWeights subjects c = map_throwing (weigh_subject c) subjects"

subsection \<open>The subject objects as heap cells\<close>

text \<open>
  \<open>calculateSubjectWeights\<close> receives references to subject objects. To say what it
  leaves untouched, the objects live in a heap; the callback reads the subject behind
  each reference and allocates the enriched object it returns. No statement of the rules
  or of the callback assigns to a property of \<open>subject\<close>, so the heap model has no
  write to an existing cell.
\<close>

type_synonym addr = nat

datatype obj = SubjectObj subject | WeightedObj weighted_subject

record heap =
  cells :: "addr \<Rightarrow> obj option"
  next_free :: addr

definition heap_ok :: "heap \<Rightarrow> bool" where
  "heap_ok h = (\<forall>a. cells h a \<noteq> None \<longrightarrow> a < next_free h)"

definition alloc :: "obj \<Rightarrow> heap \<Rightarrow> addr \<times> heap" where
  "alloc v h =
     (next_free h, h\<lparr>cells := (cells h)(next_free h \<mapsto> v), next_free := Suc (next_free h)\<rparr>)"

text \<open>Reading the subject properties of the object behind a reference; a reference to
  nothing is \<open>undefined\<close>, whose property read throws.\<close>

definition read_subject :: "heap \<Rightarrow> addr \<Rightarrow> error + subject" where
  "read_subject h a =
     (case cells h a of
        None \<Rightarrow> Inl TypeError
      | Some (SubjectObj s) \<Rightarrow> Inr s
      | Some (WeightedObj w) \<Rightarrow> Inr (subject.truncate w))"

text \<open>The references passed in point to objects.\<close>

definition valid_refs :: "heap \<Rightarrow> addr list \<Rightarrow> bool" where
  "valid_refs h as = list_all (\<lambda>a. cells h a \<noteq> None) as"

fun calculateSubjectWeights_heap ::
  "rule_context \<Rightarrow> addr list \<Rightarrow> heap \<Rightarrow> (error + addr list) \<times> heap" where
  "calculateSubjectWeights_heap c [] h = (Inr [], h)"
| "calculateSubjectWeights_heap c (a # as) h =
     (case read_subject h a of
        Inl e \<Rightarrow> (Inl e, h)
      | Inr s \<Rightarrow>
          (case weigh_subject c s of
             Inl e \<Rightarrow> (Inl e, h)
           | Inr w \<Rightarrow>
               (case alloc (WeightedObj w) h of
                  (b, h1) \<Rightarrow>
                    (case calculateSubjectWeights_heap c as h1 of
                       (Inl e, h2) \<Rightarrow> (Inl e, h2)
                     | (Inr bs, h2) \<Rightarrow> (Inr (b # bs), h2)))))"

record allocation = weighted_subject +
  allocatedHours :: real
  sessionsPerDay :: int

text \<open>The callback of \<open>weightedSubjects.map\<close> in \<open>allocateDailyHours\<close>. The total
  weight of a non-empty list that \<open>calculateSubjectWeights\<close> returned is positive, so
  the division is by a positive number wherever the program reaches it.\<close>

definition allocate :: "real \<Rightarrow> real \<Rightarrow> weighted_subject \<Rightarrow> allocation" where
  "allocate totalWeight totalDailyHours s =
     (let proportion = weight s / totalWeight;
          hours = proportion * totalDailyHours
      in weighted_subject.extend s
           (allocation.fields (toFixed2 hours) (max 1 \<lceil>hours / 2\<rceil>)))"

definition priorityOrder :: "(string \<times> int) list" where
  "priorityOrder = [(''high'', 3), (''medium'', 2), (''low'', 1)]"

text \<open>\<open>priorityOrder[b.priority] - priorityOrder[a.priority]\<close>; with a priority outside
  the table the difference is \<open>NaN\<close>, which sorting reads as 0.\<close>

definition by_priority :: "string \<Rightarrow> string \<Rightarrow> int" where
  "by_priority pa pb =
     (case (map_of priorityOrder pb, map_of priorityOrder pa) of
        (Some y, Some x) \<Rightarrow> y - x
      | _ \<Rightarrow> 0)"

text \<open>Lines 141 to 161 of \<open>allocateDailyHours\<close>: what is done with the weighted
  subjects once they are there.\<close>

definition allocations_of :: "weighted_subject list \<Rightarrow> real \<Rightarrow> allocation list" where
  "allocations_of weightedSubjects totalDailyHours =
     (let totalWeight = foldl (\<lambda>sum subj. sum + weight subj) 0 weightedSubjects
      in map (allocate totalWeight totalDailyHours) weightedSubjects)"

definition allocateDailyHours :: "subject list \<Rightarrow> real \<Rightarrow> error + allocation list" where
  "allocateDailyHours subjects totalDailyHours =
     (case calculateSubjectWeights subjects default_context of
        Inl e \<Rightarrow> Inl e
      | Inr weightedSubjects \<Rightarrow>
          Inr (array_sort (\<lambda>a b. by_priority (priority a) (priority b))
                 (allocations_of weightedSubjects totalDailyHours)))"

text \<open>\<open>adjustments.difficulty_adaptation\<close> of the first weighted subject. An empty
  result array would make \<open>[0].adjustments\<close> a \<open>TypeError\<close>.\<close>

definition difficultyRule_of :: "weighted_subject list \<Rightarrow> error + rule_result option" where
  "difficultyRule_of ws =
     (case ws of [] \<Rightarrow> Inl TypeError
      | w # _ \<Rightarrow> Inr (map_of (adjustments w) ''difficulty_adaptation''))"

text \<open>\<open>difficultyRule?.adaptedSessionLength || defaultSessionLength\<close>.\<close>

definition getOptimalSessionLength :: "'a subject_scheme \<Rightarrow> int \<Rightarrow> error + int" where
  "getOptimalSessionLength s defaultSessionLength =
     (case calculateSubjectWeights [subject.truncate s] default_context of
        Inl e \<Rightarrow> Inl e
      | Inr ws \<Rightarrow>
          (case difficultyRule_of ws of
             Inl e \<Rightarrow> Inl e
           | Inr (Some (DifficultyResult (Num n) m)) \<Rightarrow>
               Inr (if n \<noteq> 0 then n else defaultSessionLength)
           | Inr _ \<Rightarrow> Inr defaultSessionLength))"

text \<open>\<open>Math.round(defaultBreakDuration * (difficultyRule?.breakMultiplier || 1))\<close>.\<close>

definition getBreakDuration :: "'a subject_scheme \<Rightarrow> int \<Rightarrow> error + int" where
  "getBreakDuration s defaultBreakDuration =
     (case calculateSubjectWeights [subject.truncate s] default_context of
        Inl e \<Rightarrow> Inl e
      | Inr ws \<Rightarrow>
          (case difficultyRule_of ws of
             Inl e \<Rightarrow> Inl e
           | Inr (Some (DifficultyResult a m)) \<Rightarrow>
               Inr (Math_round (of_int defaultBreakDuration * (if m \<noteq> 0 then m else 1)))
           | Inr _ \<Rightarrow> Inr (Math_round (of_int defaultBreakDuration))))"

definition needsLongBreak :: "int \<Rightarrow> int \<Rightarrow> bool" where
  "needsLongBreak consecutiveSessions maxSessionsWithoutLongBreak =
     (consecutiveSessions \<ge> maxSessionsWithoutLongBreak)"


section \<open>Slots and day schedules\<close>

text \<open>A slot is a study or revision session, or a break. The properties that only one
  of the two kinds has are optional: a break has no \<open>subjectId\<close> (it reads as
  \<open>undefined\<close>), \<open>priority\<close>, \<open>difficulty\<close> or \<open>completed\<close>; a session has no
  \<open>breakType\<close>.\<close>

record slot =
  slot_id :: string
  slot_type :: string
  subjectId :: jsid
  subjectName :: string
  slot_priority :: "string option"
  slot_difficulty :: "string option"
  startTime :: string
  endTime :: string
  duration :: int
  completed :: "bool option"
  breakType :: "string option"
  slot_day :: int

record day_schedule =
  day :: int
  date :: string
  totalSessions :: nat
  totalStudyHours :: real
  slots :: "slot list"

text \<open>\<open>slot.type === CONFIG.SESSION_TYPES.STUDY || slot.type === CONFIG.SESSION_TYPES.REVISION\<close>\<close>

definition is_session :: "slot \<Rightarrow> bool" where
  "is_session slot = (slot_type slot = STUDY \<or> slot_type slot = REVISION)"


section \<open>Numbers and strings\<close>

definition digit_char :: "nat \<Rightarrow> char" where
  "digit_char n = ''0123456789'' ! n"

function nat_to_string :: "nat \<Rightarrow> string" where
  "nat_to_string n = (if n < 10 then [digit_char n] else nat_to_string (n div 10) @ [digit_char (n mod 10)])"
  by pat_completeness auto
termination
  by (relation "measure (\<lambda>n. n)") auto

declare nat_to_string.simps [simp del]

text \<open>The decimal text of an integer, as a template literal prints it.\<close>

definition int_to_string :: "int \<Rightarrow> string" where
  "int_to_string i = (if i < 0 then CHR ''-'' # nat_to_string (nat (- i)) else nat_to_string (nat i))"

definition is_digit :: "char \<Rightarrow> bool" where
  "is_digit c = (c \<in> set ''0123456789'')"

definition is_space :: "char \<Rightarrow> bool" where
  "is_space c = (c \<in> set [CHR '' '', CHR 0x09, CHR 0x0A, CHR 0x0B, CHR 0x0C, CHR 0x0D])"

definition digits_value :: "string \<Rightarrow> nat" where
  "digits_value ds = foldl (\<lambda>acc c. 10 * acc + (of_char c - 48)) 0 ds"

text \<open>\<open>parseInt\<close> in base ten: white space, a sign, then the longest run of digits;
  \<open>None\<close> is \<open>NaN\<close>. (A \<open>0x\<close> prefix, which \<open>parseInt\<close> reads as hexadecimal, does
  not occur in a time of day.)\<close>

definition parseInt :: "string \<Rightarrow> int option" where
  "parseInt s =
     (let t = dropWhile is_space s;
          negative = (case t of [] \<Rightarrow> False | c # r \<Rightarrow> c = CHR ''-'');
          u = (case t of [] \<Rightarrow> [] | c # r \<Rightarrow> if c = CHR ''-'' \<or> c = CHR ''+'' then r else t);
          ds = takeWhile is_digit u
      in if ds = [] then None
         else Some (if negative then - int (digits_value ds) else int (digits_value ds)))"

text \<open>\<open>parseInt(slot.startTime.split(':')[0])\<close>: the hour a start time displays.\<close>

definition displayed_hour :: "slot \<Rightarrow> int option" where
  "displayed_hour slot = parseInt (takeWhile (\<lambda>c. c \<noteq> CHR '':'') (startTime slot))"


section \<open>rules.js: validating a schedule\<close>

datatype violation =
    ConsecutiveSessions nat nat string
  | TimePreference nat nat string
  | RevisionNeeded string int string

record subject_stats =
  sessions :: int
  dailySessions :: "(nat \<times> int) list"
  lastSessionDay :: "int option"

text \<open>The property key an identifier-valued expression selects.\<close>

definition key_of :: "jsid \<Rightarrow> string" where
  "key_of i = (case i of Undefined \<Rightarrow> ''undefined'' | Null \<Rightarrow> ''null'' | Str s \<Rightarrow> s)"

text \<open>The four statements that track a session in \<open>subjectStats\<close>. (An object lists
  its integer-like keys first; the subject ids are not taken to be such keys.)\<close>

definition track_session ::
  "(string \<times> subject_stats) list \<Rightarrow> string \<Rightarrow> nat \<Rightarrow> (string \<times> subject_stats) list" where
  "track_session subjectStats k dayIndex =
     (let st = (case map_of subjectStats k of
                  None \<Rightarrow> \<lparr>sessions = 0, dailySessions = [], lastSessionDay = None\<rparr>
                | Some st \<Rightarrow> st);
          today = (case map_of (dailySessions st) dayIndex of None \<Rightarrow> 0 | Some n \<Rightarrow> n)
      in AList.update k
           \<lparr>sessions = sessions st + 1,
            dailySessions = AList.update dayIndex (today + 1) (dailySessions st),
            lastSessionDay = Some (int dayIndex)\<rparr>
           subjectStats)"

text \<open>\<open>adjustments.time_preference?.preferredTimeSlots\<close> of the first weighted
  subject.\<close>

definition preferredSlots_of :: "weighted_subject list \<Rightarrow> error + int list option" where
  "preferredSlots_of ws =
     (case ws of
        [] \<Rightarrow> Inl TypeError
      | w # _ \<Rightarrow>
          Inr (case map_of (adjustments w) ''time_preference'' of
                 Some (TimeResult ps) \<Rightarrow> Some ps
               | _ \<Rightarrow> None))"

definition time_violations :: "nat \<Rightarrow> nat \<Rightarrow> slot \<Rightarrow> int list option \<Rightarrow> violation list" where
  "time_violations dayIndex slotIndex slot preferredSlots =
     (case preferredSlots of
        Some [start, end'] \<Rightarrow>
          (case displayed_hour slot of
             None \<Rightarrow> []
           | Some hour \<Rightarrow>
               if hour < start \<or> hour \<ge> end' then
                 [TimePreference dayIndex slotIndex
                    (subjectName slot @ '' scheduled outside preferred time ('' @ int_to_string start
                       @ '':00-'' @ int_to_string end' @ '':00)'')]
               else [])
      | _ \<Rightarrow> [])"

text \<open>The body of \<open>daySchedule.slots.forEach\<close>. The state is the violations and the
  statistics so far, \<open>consecutiveSameSubject\<close> and \<open>lastSubjectId\<close>.\<close>

definition visit_slot ::
  "subject list \<Rightarrow> nat \<Rightarrow> nat \<Rightarrow> slot \<Rightarrow>
   violation list \<times> (string \<times> subject_stats) list \<times> nat \<times> jsid \<Rightarrow>
   error + violation list \<times> (string \<times> subject_stats) list \<times> nat \<times> jsid" where
  "visit_slot subjects dayIndex slotIndex slot state =
     (case state of (violations, subjectStats, consecutiveSameSubject, lastSubjectId) \<Rightarrow>
        if is_session slot then
          (let sid = subjectId slot;
               subjectStats1 = track_session subjectStats (key_of sid) dayIndex;
               consecutive1 = (if sid = lastSubjectId then consecutiveSameSubject + 1 else 0);
               violations1 =
                 (if sid = lastSubjectId \<and> consecutive1 > 1 then
                    violations @ [ConsecutiveSessions dayIndex slotIndex
                                    (''Subject repeated consecutively: '' @ subjectName slot)]
                  else violations)
           in case find (\<lambda>s. Str (subject_id s) = sid) subjects of
                None \<Rightarrow> Inr (violations1, subjectStats1, consecutive1, sid)
              | Some subject \<Rightarrow>
                  (case calculateSubjectWeights [subject] default_context of
                     Inl e \<Rightarrow> Inl e
                   | Inr ws \<Rightarrow>
                       (case preferredSlots_of ws of
                          Inl e \<Rightarrow> Inl e
                        | Inr preferredSlots \<Rightarrow>
                            Inr (violations1 @ time_violations dayIndex slotIndex slot preferredSlots,
                                 subjectStats1, consecutive1, sid))))
        else Inr state)"

fun visit_slots ::
  "subject list \<Rightarrow> nat \<Rightarrow> nat \<Rightarrow> slot list \<Rightarrow>
   violation list \<times> (string \<times> subject_stats) list \<times> nat \<times> jsid \<Rightarrow>
   error + violation list \<times> (string \<times> subject_stats) list \<times> nat \<times> jsid" where
  "visit_slots subjects dayIndex slotIndex [] state = Inr state"
| "visit_slots subjects dayIndex slotIndex (slot # rest) state =
     (case visit_slot subjects dayIndex slotIndex slot state of
        Inl e \<Rightarrow> Inl e
      | Inr state1 \<Rightarrow> visit_slots subjects dayIndex (Suc slotIndex) rest state1)"

text \<open>The body of \<open>schedule.forEach\<close>: each day starts with
  \<open>consecutiveSameSubject = 0\<close> and \<open>lastSubjectId = null\<close>.\<close>

fun visit_days ::
  "subject list \<Rightarrow> nat \<Rightarrow> day_schedule list \<Rightarrow>
   violation list \<times> (string \<times> subject_stats) list \<Rightarrow>
   error + violation list \<times> (string \<times> subject_stats) list" where
  "visit_days subjects dayIndex [] acc = Inr acc"
| "visit_days subjects dayIndex (daySchedule # rest) (violations, subjectStats) =
     (case visit_slots subjects dayIndex 0 (slots daySchedule) (violations, subjectStats, 0, Null) of
        Inl e \<Rightarrow> Inl e
      | Inr (violations1, subjectStats1, consecutive1, last1) \<Rightarrow>
          visit_days subjects (Suc dayIndex) rest (violations1, subjectStats1))"

text \<open>The revision check over \<open>Object.entries(subjectStats)\<close>. A missing
  \<open>currentDay\<close> or \<open>lastSessionDay\<close> makes the difference \<open>NaN\<close>, which is not
  greater than anything.\<close>

definition revision_violations ::
  "subject list \<Rightarrow> rule_context \<Rightarrow> (string \<times> subject_stats) list \<Rightarrow> violation list" where
  "revision_violations subjects c subjectStats =
     concat (map (\<lambda>(k, st).
       case find (\<lambda>s. subject_id s = k) subjects of
         None \<Rightarrow> []
       | Some subject \<Rightarrow>
           (case (ctx_currentDay c, lastSessionDay st) of
              (Some currentDay, Some lastDay) \<Rightarrow>
                (let daysBetween = currentDay - lastDay in
                 if daysBetween > REVISION_FREQUENCY then
                   [RevisionNeeded (name subject) daysBetween
                      (name subject @ '' hasn'' @ [CHR 0x27] @ ''t been studied for ''
                         @ int_to_string daysBetween @ '' days. Needs revision.'')]
                 else [])
            | _ \<Rightarrow> [])) subjectStats)"

definition initial_stats :: "subject list \<Rightarrow> (string \<times> subject_stats) list" where
  "initial_stats subjects =
     foldl (\<lambda>subjectStats subj.
              AList.update (subject_id subj)
                \<lparr>sessions = 0, dailySessions = [], lastSessionDay = Some (- 1)\<rparr> subjectStats)
       [] subjects"

record validation =
  isValid :: bool
  violations :: "violation list"
  stats :: "(string \<times> subject_stats) list"

definition validateSchedule ::
  "day_schedule list \<Rightarrow> subject list \<Rightarrow> rule_context \<Rightarrow> error + validation" where
  "validateSchedule schedule subjects c =
     (case visit_days subjects 0 schedule ([], initial_stats subjects) of
        Inl e \<Rightarrow> Inl e
      | Inr (violations1, subjectStats) \<Rightarrow>
          (let violations2 = violations1 @ revision_violations subjects c subjectStats
           in Inr \<lparr>isValid = (violations2 = []), violations = violations2, stats = subjectStats\<rparr>))"

text \<open>What the claims about the validator speak of: the subjects of a day's sessions in
  order, the violations of the consecutive kind, and the sessions that are the third or
  a later one of an unbroken run of one subject.\<close>

definition session_ids :: "day_schedule \<Rightarrow> jsid list" where
  "session_ids d = map subjectId (filter is_session (slots d))"







section \<open>rules.js: the efficiency score\<close>




section \<open>scheduler.js: the scheduler\<close>

text \<open>\<open>this.context\<close>, \<open>this.currentDay\<close> and \<open>this.schedule\<close> of the scheduler
  object. \<open>daysSinceLastStudy\<close> is an object used as a map from subject ids to day
  counts.\<close>

record sched_context =
  lastScheduledSubject :: jsid
  daysSinceLastStudy :: "string \<Rightarrow> int option"
  consecutiveSessions :: int
  sessionCountToday :: int

record scheduler =
  schedule :: "day_schedule list"
  currentDay :: int
  ctx :: sched_context

definition new_scheduler :: scheduler where
  "new_scheduler =
     \<lparr>schedule = [], currentDay = 0,
      ctx = \<lparr>lastScheduledSubject = Null, daysSinceLastStudy = Map.empty,
             consecutiveSessions = 0, sessionCountToday = 0\<rparr>\<rparr>"

text \<open>The \<open>sessionSettings\<close> argument. The input form builds it with
  \<open>sessionLength\<close>, \<open>breakDuration\<close> and \<open>longBreakDuration\<close>; the day loop also reads
  \<open>sessionSettings.dailyHours\<close>, which is \<open>undefined\<close> unless a caller adds it.\<close>

record session_settings =
  sessionLength :: int
  breakDuration :: int
  longBreakDuration :: int
  dailyHours :: "real option"

text \<open>\<open>(this.context.daysSinceLastStudy[id] || 0) >= CONFIG.SCHEDULING_RULES.REVISION_FREQUENCY\<close>;
  without the \<open>|| 0\<close> the comparison of \<open>undefined\<close> is false as well.\<close>

definition needs_revision :: "sched_context \<Rightarrow> string \<Rightarrow> bool" where
  "needs_revision c i =
     ((case daysSinceLastStudy c i of None \<Rightarrow> 0 | Some n \<Rightarrow> n) \<ge> REVISION_FREQUENCY)"

text \<open>\<open>subject.hoursScheduled\<close> is never assigned, so \<open>subject.hoursScheduled || 0\<close> is
  0. An empty \<open>availableSubjects\<close> makes \<open>startIdx\<close> \<open>NaN\<close> and the slice empty.\<close>

definition selectTodaysSubjects :: "scheduler \<Rightarrow> allocation list \<Rightarrow> nat \<Rightarrow> allocation list" where
  "selectTodaysSubjects st allocations dayIndex =
     (let revisionSubjects = filter (\<lambda>subject. needs_revision (ctx st) (subject_id subject)) allocations
      in if length revisionSubjects > 0 then take 3 revisionSubjects
         else
           (let availableSubjects =
                  filter (\<lambda>subject. 0 < allocatedHours subject * (real dayIndex + 1)) allocations;
                subjectsPerDay = min (length availableSubjects) 4
            in if availableSubjects = [] then []
               else
                 (let startIdx = dayIndex mod max 1 (length availableSubjects div subjectsPerDay)
                  in take subjectsPerDay (drop startIdx availableSubjects))))"

text \<open>The comparator of \<open>todaysSubjects.sort\<close>: revision need first, then priority.\<close>

definition by_need_and_priority :: "sched_context \<Rightarrow> allocation \<Rightarrow> allocation \<Rightarrow> int" where
  "by_need_and_priority c a b =
     (let aNeedsRevision = needs_revision c (subject_id a);
          bNeedsRevision = needs_revision c (subject_id b)
      in if aNeedsRevision \<and> \<not> bNeedsRevision then - 1
         else if \<not> aNeedsRevision \<and> bNeedsRevision then 1
         else by_priority (priority a) (priority b))"

text \<open>The remainder operator \<open>%\<close>: the sign of the dividend.\<close>

definition js_rem :: "int \<Rightarrow> int \<Rightarrow> int" where
  "js_rem a b = sgn a * (\<bar>a\<bar> mod \<bar>b\<bar>)"

definition padStart2 :: "string \<Rightarrow> string" where
  "padStart2 s = replicate (2 - length s) CHR ''0'' @ s"

definition formatTime :: "int \<Rightarrow> string" where
  "formatTime minutes =
     (let hours = minutes div 60;
          mins = js_rem minutes 60;
          period = (if hours \<ge> 12 then ''PM'' else ''AM'');
          displayHours = (if js_rem hours 12 \<noteq> 0 then js_rem hours 12 else 12)
      in int_to_string displayHours @ '':'' @ padStart2 (int_to_string mins) @ '' '' @ period)"

definition createSessionSlot :: "scheduler \<Rightarrow> allocation \<Rightarrow> int \<Rightarrow> int \<Rightarrow> nat \<Rightarrow> slot" where
  "createSessionSlot st subject startTimeMinutes len dayIndex =
     \<lparr>slot_id = ''session_'' @ subject_id subject @ ''_'' @ nat_to_string dayIndex @ ''_''
                 @ int_to_string startTimeMinutes,
      slot_type = (if needs_revision (ctx st) (subject_id subject) then REVISION else STUDY),
      subjectId = Str (subject_id subject),
      subjectName = name subject,
      slot_priority = Some (priority subject),
      slot_difficulty = Some (difficulty subject),
      startTime = formatTime startTimeMinutes,
      endTime = formatTime (startTimeMinutes + len),
      duration = len,
      completed = Some False,
      breakType = None,
      slot_day = int dayIndex + 1\<rparr>"

definition createBreakSlot :: "scheduler \<Rightarrow> int \<Rightarrow> int \<Rightarrow> string \<Rightarrow> slot" where
  "createBreakSlot st startTimeMinutes len kind =
     \<lparr>slot_id = ''break_'' @ int_to_string startTimeMinutes,
      slot_type = BREAK,
      subjectId = Undefined,
      subjectName = (if kind = ''long'' then ''Long Break''
                     else if kind = ''lunch'' then ''Lunch Break'' else ''Break''),
      slot_priority = None,
      slot_difficulty = None,
      startTime = formatTime startTimeMinutes,
      endTime = formatTime (startTimeMinutes + len),
      duration = len,
      completed = None,
      breakType = Some kind,
      slot_day = currentDay st + 1\<rparr>"

text \<open>The variables of the loop that fills a day. \<open>remainingHours\<close> starts as
  \<open>sessionSettings.dailyHours\<close> and is \<open>undefined\<close> when that is.\<close>

record fill_state =
  daySlots :: "slot list"
  currentTime :: int
  sessionCount :: int
  lastSubjectId :: jsid
  remainingHours :: "real option"
  subjectIndex :: nat

datatype 'a step = Break_loop 'a | Continue_loop 'a | Throw error

definition hours_remain :: "fill_state \<Rightarrow> bool" where
  "hours_remain ls = (case remainingHours ls of None \<Rightarrow> False | Some h \<Rightarrow> h > 0)"

text \<open>Lines 431 to 443 of a turn of the loop: the session slot, the clock, the hours
  left, the session count and the last subject. The turn also adds to
  \<open>subject.hoursScheduledToday\<close>, a property nothing reads; it is left out.\<close>

definition add_session :: "scheduler \<Rightarrow> nat \<Rightarrow> allocation \<Rightarrow> int \<Rightarrow> fill_state \<Rightarrow> fill_state" where
  "add_session st dayIndex subject len ls =
     ls\<lparr>daySlots := daySlots ls @ [createSessionSlot st subject (currentTime ls) len dayIndex],
        currentTime := currentTime ls + len,
        remainingHours := map_option (\<lambda>h. h - real_of_int len / 60) (remainingHours ls),
        sessionCount := sessionCount ls + 1,
        lastSubjectId := Str (subject_id subject)\<rparr>"

text \<open>Lines 448 to 463: a long break after every fourth session in a row, otherwise a
  regular break while hours remain.\<close>

definition add_break :: "scheduler \<Rightarrow> int \<Rightarrow> fill_state \<Rightarrow> fill_state" where
  "add_break st pause ls =
     (if needsLongBreak (sessionCount ls) MAX_SESSIONS_WITHOUT_LONG_BREAK then
        ls\<lparr>daySlots := daySlots ls @ [createBreakSlot st (currentTime ls) LONG_BREAK_DURATION ''long''],
           currentTime := currentTime ls + LONG_BREAK_DURATION,
           sessionCount := 0\<rparr>
      else if hours_remain ls then
        ls\<lparr>daySlots := daySlots ls @ [createBreakSlot st (currentTime ls) pause ''regular''],
           currentTime := currentTime ls + pause\<rparr>
      else ls)"

text \<open>One turn of the \<open>while\<close> loop of \<open>generateDaySchedule\<close>. The two calls into the
  rules engine, \<open>rulesEngine.getOptimalSessionLength\<close> and
  \<open>rulesEngine.getBreakDuration\<close>, are the parameters \<open>optimalLength\<close> and
  \<open>breakLength\<close>; the scheduler itself is \<open>generateDaySchedule\<close> below, with the
  engine's own two functions in their place.\<close>

definition fill_step ::
  "(allocation \<Rightarrow> int \<Rightarrow> error + int) \<Rightarrow> (allocation \<Rightarrow> int \<Rightarrow> error + int) \<Rightarrow>
   scheduler \<Rightarrow> nat \<Rightarrow> session_settings \<Rightarrow> allocation list \<Rightarrow> fill_state \<Rightarrow> fill_state step" where
  "fill_step optimalLength breakLength st dayIndex settings todaysSubjects ls =
     (if todaysSubjects = [] then Break_loop ls
      else
        (let subject = todaysSubjects ! (subjectIndex ls mod length todaysSubjects) in
         if Str (subject_id subject) = lastSubjectId ls \<and> length todaysSubjects > 1 then
           Continue_loop (ls\<lparr>subjectIndex := subjectIndex ls + 1\<rparr>)
         else
           (case optimalLength subject (sessionLength settings) of
              Inl e \<Rightarrow> Throw e
            | Inr len \<Rightarrow>
                (case breakLength subject (breakDuration settings) of
                   Inl e \<Rightarrow> Throw e
                 | Inr pause \<Rightarrow>
                     (let ls2 = add_break st pause (add_session st dayIndex subject len ls);
                          ls3 = ls2\<lparr>subjectIndex := subjectIndex ls2 + 1\<rparr>
                      in if currentTime ls3 \<ge> AVOID_LATE_NIGHT * 60 then Break_loop ls3
                         else Continue_loop ls3)))))"

text \<open>The loop. It need not end (two selected subjects with one id are skipped for
  ever), so not returning is the value \<open>None\<close>.\<close>

partial_function (option) fill_day ::
  "(allocation \<Rightarrow> int \<Rightarrow> error + int) \<Rightarrow> (allocation \<Rightarrow> int \<Rightarrow> error + int) \<Rightarrow>
   scheduler \<Rightarrow> nat \<Rightarrow> session_settings \<Rightarrow> allocation list \<Rightarrow> fill_state \<Rightarrow>
   (error + fill_state) option" where
  "fill_day optimalLength breakLength st dayIndex settings todaysSubjects ls =
     (if hours_remain ls \<and> currentTime ls < 21 * 60 then
        (case fill_step optimalLength breakLength st dayIndex settings todaysSubjects ls of
           Throw e \<Rightarrow> Some (Inl e)
         | Break_loop ls1 \<Rightarrow> Some (Inr ls1)
         | Continue_loop ls1 \<Rightarrow>
             fill_day optimalLength breakLength st dayIndex settings todaysSubjects ls1)
      else Some (Inr ls))"

declare fill_day.simps [code]

fun findIndex :: "('a \<Rightarrow> bool) \<Rightarrow> 'a list \<Rightarrow> nat option" where
  "findIndex P [] = None"
| "findIndex P (x # xs) = (if P x then Some 0 else map_option Suc (findIndex P xs))"

text \<open>\<open>parseInt(slot.startTime.split(':')[0]) >= 12\<close>; a comparison with \<open>NaN\<close> is
  false.\<close>

definition shows_hour_from_12 :: "slot \<Rightarrow> bool" where
  "shows_hour_from_12 slot = (case displayed_hour slot of None \<Rightarrow> False | Some h \<Rightarrow> h \<ge> 12)"

text \<open>Lines 473 to 483: the lunch break, after the loop.\<close>

definition insertLunch :: "scheduler \<Rightarrow> slot list \<Rightarrow> int \<Rightarrow> slot list" where
  "insertLunch st slots0 clock =
     (if clock > 12 * 60 \<and> clock < 14 * 60 then
        (case findIndex shows_hour_from_12 slots0 of
           None \<Rightarrow> slots0
         | Some lunchIndex \<Rightarrow>
             take lunchIndex slots0 @ [createBreakSlot st (12 * 60) 60 ''lunch'']
               @ drop lunchIndex slots0)
      else slots0)"

text \<open>\<open>generateDaySchedule\<close>, with the two rules-engine calls as parameters.
  \<open>calculateDate\<close> formats a calendar date read from the page and is a parameter as
  well.\<close>

definition generateDaySchedule_with ::
  "(allocation \<Rightarrow> int \<Rightarrow> error + int) \<Rightarrow> (allocation \<Rightarrow> int \<Rightarrow> error + int) \<Rightarrow>
   (nat \<Rightarrow> string) \<Rightarrow> scheduler \<Rightarrow> nat \<Rightarrow> allocation list \<Rightarrow> session_settings \<Rightarrow>
   (error + day_schedule) option" where
  "generateDaySchedule_with optimalLength breakLength calculateDate st dayIndex allocations settings =
     (let todaysSubjects =
            array_sort (by_need_and_priority (ctx st)) (selectTodaysSubjects st allocations dayIndex);
          start = \<lparr>daySlots = [], currentTime = 9 * 60, sessionCount = 0, lastSubjectId = Null,
                   remainingHours = dailyHours settings, subjectIndex = 0\<rparr>
      in case fill_day optimalLength breakLength st dayIndex settings todaysSubjects start of
           None \<Rightarrow> None
         | Some (Inl e) \<Rightarrow> Some (Inl e)
         | Some (Inr ls) \<Rightarrow>
             (let slots1 = insertLunch st (daySlots ls) (currentTime ls)
              in Some (Inr
                   \<lparr>day = int dayIndex + 1,
                    date = calculateDate dayIndex,
                    totalSessions = length (filter is_session slots1),
                    totalStudyHours =
                      real_of_int (foldl (\<lambda>sum s. sum + duration s) 0 (filter is_session slots1)) / 60,
                    slots = slots1\<rparr>)))"

definition generateDaySchedule ::
  "(nat \<Rightarrow> string) \<Rightarrow> scheduler \<Rightarrow> nat \<Rightarrow> allocation list \<Rightarrow> session_settings \<Rightarrow>
   (error + day_schedule) option" where
  "generateDaySchedule = generateDaySchedule_with getOptimalSessionLength getBreakDuration"

text \<open>\<open>updateContextAfterDay\<close>: the walk over the day's slots, then the increment of
  every key of \<open>daysSinceLastStudy\<close>.\<close>

definition note_session :: "sched_context \<Rightarrow> slot \<Rightarrow> sched_context" where
  "note_session c slot =
     (if is_session slot then
        c\<lparr>daysSinceLastStudy := (daysSinceLastStudy c)(key_of (subjectId slot) \<mapsto> 0),
          lastScheduledSubject := subjectId slot\<rparr>
      else c)"

definition updateContextAfterDay :: "scheduler \<Rightarrow> nat \<Rightarrow> day_schedule \<Rightarrow> scheduler" where
  "updateContextAfterDay st dayIndex daySchedule =
     (let c1 = foldl note_session (ctx st) (slots daySchedule);
          c2 = c1\<lparr>daysSinceLastStudy := (\<lambda>k. map_option (\<lambda>n. n + 1) (daysSinceLastStudy c1 k))\<rparr>
      in st\<lparr>ctx := c2, currentDay := int dayIndex\<rparr>)"






text \<open>What the claims about a generated day speak of: no session follows a session of
  the same subject; and the two facts the loop keeps true, that the sessions so far
  alternate and end with \<open>lastSubjectId\<close>, and that the clock is 9:00 plus the
  durations of the slots so far, none of which is a lunch break.\<close>

fun no_back_to_back :: "jsid list \<Rightarrow> bool" where
  "no_back_to_back (a # b # rest) = (a \<noteq> b \<and> no_back_to_back (b # rest))"
| "no_back_to_back _ = True"

definition sessions_alternate :: "fill_state \<Rightarrow> bool" where
  "sessions_alternate ls =
     (let ids = map subjectId (filter is_session (daySlots ls))
      in no_back_to_back ids \<and> (ids = [] \<or> last ids = lastSubjectId ls))"

definition is_lunch :: "slot \<Rightarrow> bool" where
  "is_lunch s = (breakType s = Some ''lunch'')"



section \<open>Export and import\<close>

text \<open>
  \<open>JSON.stringify\<close> and \<open>JSON.parse\<close> are the platform's. A JSON text is represented
  by the value it denotes, so that parsing what was stringified gives the value back; a
  text that \<open>JSON.parse\<close> rejects is \<open>None\<close>. Object properties keep their order.
\<close>

datatype json =
    JNull
  | JBool bool
  | JNum real
  | JStr string
  | JArr "json list"
  | JObj "(string \<times> json) list"

text \<open>Reading a property that the import code names (\<open>plan\<close>, \<open>progress\<close>,
  \<open>preferences\<close>, \<open>schedule\<close>) of a parsed value other than \<open>null\<close>: only an object
  can have it; \<open>None\<close> is \<open>undefined\<close>.\<close>

definition get_prop :: "json \<Rightarrow> string \<Rightarrow> json option" where
  "get_prop v k = (case v of JObj kvs \<Rightarrow> map_of kvs k | _ \<Rightarrow> None)"

definition truthy :: "json \<Rightarrow> bool" where
  "truthy v =
     (case v of
        JNull \<Rightarrow> False
      | JBool b \<Rightarrow> b
      | JNum x \<Rightarrow> x \<noteq> 0
      | JStr s \<Rightarrow> s \<noteq> []
      | _ \<Rightarrow> True)"

text \<open>The object a slot or a day stringifies to; a property that is \<open>undefined\<close> is
  left out.\<close>

definition opt_field :: "string \<Rightarrow> json option \<Rightarrow> (string \<times> json) list" where
  "opt_field k v = (case v of None \<Rightarrow> [] | Some j \<Rightarrow> [(k, j)])"

definition slot_to_json :: "slot \<Rightarrow> json" where
  "slot_to_json s =
     JObj ([(''id'', JStr (slot_id s)), (''type'', JStr (slot_type s))]
           @ opt_field ''subjectId''
               (case subjectId s of Undefined \<Rightarrow> None | Null \<Rightarrow> Some JNull | Str i \<Rightarrow> Some (JStr i))
           @ [(''subjectName'', JStr (subjectName s))]
           @ opt_field ''priority'' (map_option JStr (slot_priority s))
           @ opt_field ''difficulty'' (map_option JStr (slot_difficulty s))
           @ [(''startTime'', JStr (startTime s)), (''endTime'', JStr (endTime s)),
              (''duration'', JNum (real_of_int (duration s)))]
           @ opt_field ''completed'' (map_option JBool (completed s))
           @ opt_field ''breakType'' (map_option JStr (breakType s))
           @ [(''day'', JNum (real_of_int (slot_day s)))])"

definition day_to_json :: "day_schedule \<Rightarrow> json" where
  "day_to_json d =
     JObj [(''day'', JNum (real_of_int (day d))), (''date'', JStr (date d)),
           (''totalSessions'', JNum (real (totalSessions d))),
           (''totalStudyHours'', JNum (totalStudyHours d)),
           (''slots'', JArr (map slot_to_json (slots d)))]"

text \<open>\<open>exportSchedule('json')\<close>: \<open>JSON.stringify(this.schedule, null, 2)\<close>, the text of
  an array of days. (The \<open>csv\<close> and \<open>text\<close> formats are not modelled.)\<close>

definition exportSchedule_json :: "scheduler \<Rightarrow> json" where
  "exportSchedule_json st = JArr (map day_to_json (schedule st))"

text \<open>\<open>localStorage\<close>, each stored text again as the value it denotes.\<close>

type_synonym local_storage = "string \<Rightarrow> json option"

record import_result =
  success :: bool
  message :: string

text \<open>\<open>if (data.key) localStorage.setItem(storageKey, JSON.stringify(data.key))\<close>\<close>

definition store_if_present :: "json \<Rightarrow> string \<Rightarrow> string \<Rightarrow> local_storage \<Rightarrow> local_storage" where
  "store_if_present parsed k storageKey ls =
     (case get_prop parsed k of
        None \<Rightarrow> ls
      | Some v \<Rightarrow> if truthy v then ls(storageKey \<mapsto> v) else ls)"

text \<open>\<open>StorageManager.importData\<close>. A text that does not parse, and the text
  \<open>null\<close> (whose \<open>data.plan\<close> throws), end in the \<open>catch\<close> block.\<close>

definition importData :: "json option \<Rightarrow> local_storage \<Rightarrow> import_result \<times> local_storage" where
  "importData jsonString ls =
     (case jsonString of
        None \<Rightarrow> (\<lparr>success = False, message = ''Invalid JSON format''\<rparr>, ls)
      | Some JNull \<Rightarrow> (\<lparr>success = False, message = ''Invalid JSON format''\<rparr>, ls)
      | Some parsed \<Rightarrow>
          (\<lparr>success = True, message = ''Data imported successfully''\<rparr>,
           store_if_present parsed ''preferences'' USER_PREFS
             (store_if_present parsed ''progress'' PROGRESS
                (store_if_present parsed ''plan'' STUDY_PLAN ls))))"

text \<open>\<open>StorageManager.loadPlan\<close>, and the schedule of the plan it loads.\<close>

definition loadPlan :: "local_storage \<Rightarrow> json option" where
  "loadPlan ls = ls STUDY_PLAN"

definition loaded_schedule :: "local_storage \<Rightarrow> json option" where
  "loaded_schedule ls = (case loadPlan ls of None \<Rightarrow> None | Some plan \<Rightarrow> get_prop plan ''schedule'')"


section \<open>Example inputs\<close>

text \<open>A subject as the input form produces it, and a context that tracks no subject
  yet: the \<open>daysSinceLastStudy\<close> object is there and empty.\<close>

definition example_subject :: "string \<Rightarrow> string \<Rightarrow> string \<Rightarrow> subject" where
  "example_subject i p d =
     \<lparr>subject_id = i, name = i, priority = p, difficulty = d, hoursNeeded = 10,
      hoursCompleted = 0, sessionsCompleted = 0, weight = 0\<rparr>"

definition tracking_context :: rule_context where
  "tracking_context =
     \<lparr>ctx_defaultSessionLength = Undef, ctx_lastScheduledSubject = Undefined,
      ctx_daysSinceLastStudy = Some Map.empty, ctx_currentDay = None\<rparr>"

definition example_heap :: heap where
  "example_heap =
     \<lparr>cells = [0 \<mapsto> SubjectObj (example_subject ''a'' ''high'' ''medium'')], next_free = 1\<rparr>"


text \<open>Allocations as \<open>allocateDailyHours\<close> would hand them to the scheduler, the
  session settings of the form with \<open>dailyHours\<close> added, and a rules engine that
  answers with the default lengths.\<close>

definition example_allocation :: "string \<Rightarrow> string \<Rightarrow> string \<Rightarrow> allocation" where
  "example_allocation i p d =
     \<lparr>subject_id = i, name = i, priority = p, difficulty = d, hoursNeeded = 10,
      hoursCompleted = 0, sessionsCompleted = 0, weight = 2, adjustments = [],
      allocatedHours = 2, sessionsPerDay = 1\<rparr>"

definition example_settings :: "int \<Rightarrow> int \<Rightarrow> real option \<Rightarrow> session_settings" where
  "example_settings len pause hours =
     \<lparr>sessionLength = len, breakDuration = pause, longBreakDuration = 30, dailyHours = hours\<rparr>"

definition default_length :: "allocation \<Rightarrow> int \<Rightarrow> error + int" where
  "default_length subject dflt = Inr dflt"

definition example_date :: "nat \<Rightarrow> string" where
  "example_date n = ''Monday, January 1, 2024''"

text \<open>The day a call returned, if it returned one.\<close>

definition returned_day :: "(error + day_schedule) option \<Rightarrow> day_schedule option" where
  "returned_day r = (case r of Some (Inr d) \<Rightarrow> Some d | _ \<Rightarrow> None)"

text \<open>Slots and days for the validator and the scores.\<close>

definition example_session :: "string \<Rightarrow> string \<Rightarrow> int \<Rightarrow> slot" where
  "example_session i start len =
     \<lparr>slot_id = ''session_'' @ i, slot_type = STUDY, subjectId = Str i, subjectName = i,
      slot_priority = Some ''medium'', slot_difficulty = Some ''medium'', startTime = start,
      endTime = start, duration = len, completed = Some False, breakType = None, slot_day = 1\<rparr>"


definition example_day :: "slot list \<Rightarrow> day_schedule" where
  "example_day sl =
     \<lparr>day = 1, date = example_date 0, totalSessions = length (filter is_session sl),
      totalStudyHours = real_of_int (sum_list (map duration (filter is_session sl))) / 60,
      slots = sl\<rparr>"


section \<open>Properties of the rules engine\<close>

subsection \<open>Calls without a context\<close>

lemma apply_rules_default_context:
  "apply_rules rules s default_context acc = Inl TypeError"
  by (cases acc)
     (simp add: rules_def priority_allocation_def difficulty_adaptation_def time_preference_def
        consecutive_avoidance_def revision_scheduling_def default_context_def Let_def)

lemma weigh_subject_default_context: "weigh_subject default_context s = Inl TypeError"
  by (simp add: weigh_subject_def apply_rules_default_context)

lemma calculateSubjectWeights_default_context:
  "subjects \<noteq> [] \<Longrightarrow> calculateSubjectWeights subjects default_context = Inl TypeError"
  by (cases subjects) (simp_all add: calculateSubjectWeights_def weigh_subject_default_context)

lemma calculateSubjectWeights_Nil: "calculateSubjectWeights [] c = Inr []"
  by (simp add: calculateSubjectWeights_def)

lemma allocateDailyHours_Nil: "allocateDailyHours [] h = Inr []"
  by (simp add: allocateDailyHours_def calculateSubjectWeights_Nil allocations_of_def array_sort_def)

lemma getOptimalSessionLength_throws: "getOptimalSessionLength s d = Inl TypeError"
  by (simp add: getOptimalSessionLength_def calculateSubjectWeights_default_context)

lemma getBreakDuration_throws: "getBreakDuration s d = Inl TypeError"
  by (simp add: getBreakDuration_def calculateSubjectWeights_default_context)

lemma allocateDailyHours_throws:
  "subjects \<noteq> [] \<Longrightarrow> allocateDailyHours subjects h = Inl TypeError"
  by (simp add: allocateDailyHours_def calculateSubjectWeights_default_context)

text \<open>
  Claim C1. With the default context \<open>{}\<close> the \<open>revision_scheduling\<close> rule reads a
  property of the missing \<open>daysSinceLastStudy\<close> object and throws a \<open>TypeError\<close>; so
  \<open>calculateSubjectWeights\<close> throws for every non-empty subject list, and so do
  \<open>allocateDailyHours\<close> (for a non-empty list), \<open>getOptimalSessionLength\<close> and
  \<open>getBreakDuration\<close> (for every subject), which all call it without a context.
\<close>

theorem C1_default_context_raises:
  assumes "subjects \<noteq> []"
  shows "revision_scheduling s default_context = Inl TypeError
       \<and> calculateSubjectWeights subjects default_context = Inl TypeError
       \<and> allocateDailyHours subjects totalDailyHours = Inl TypeError
       \<and> getOptimalSessionLength s' defaultSessionLength = Inl TypeError
       \<and> getBreakDuration s' defaultBreakDuration = Inl TypeError"
proof -
  have "revision_scheduling s default_context = Inl TypeError"
    by (simp add: revision_scheduling_def default_context_def)
  with assms show ?thesis
    by (simp add: calculateSubjectWeights_default_context allocateDailyHours_throws
        getOptimalSessionLength_throws getBreakDuration_throws)
qed

theorem C1_default_context_raises_witness:
  "[example_subject ''a'' ''high'' ''hard''] \<noteq> []
   \<and> revision_scheduling (example_subject ''a'' ''high'' ''hard'') default_context = Inl TypeError
   \<and> calculateSubjectWeights [example_subject ''a'' ''high'' ''hard''] default_context = Inl TypeError
   \<and> allocateDailyHours [example_subject ''a'' ''high'' ''hard''] 4 = Inl TypeError
   \<and> getOptimalSessionLength (example_subject ''a'' ''high'' ''hard'') 60 = Inl TypeError
   \<and> getBreakDuration (example_subject ''a'' ''high'' ''hard'') 10 = Inl TypeError"
  using C1_default_context_raises
    [of "[example_subject ''a'' ''high'' ''hard'']" "example_subject ''a'' ''high'' ''hard''" 4
        "example_subject ''a'' ''high'' ''hard''" 60 10]
  by simp

subsection \<open>Session lengths\<close>

text \<open>Were the rule reached with a context, it would still find no
  \<open>defaultSessionLength\<close> there: no caller puts one in. The cap of a hard subject is
  then \<open>Math.min(undefined, 45)\<close>, which is \<open>NaN\<close>.\<close>

lemma difficulty_adaptation_without_default:
  "ctx_defaultSessionLength c = Undef \<Longrightarrow>
     difficulty_adaptation s c =
       Inr (if difficulty s = ''hard'' then DifficultyResult NaN (3 / 2)
            else if difficulty s = ''easy'' then DifficultyResult NaN (4 / 5)
            else DifficultyResult Undef 1)"
  by (simp add: difficulty_adaptation_def Math_min_def Math_max_def)

text \<open>
  Claim C3. \<open>getOptimalSessionLength\<close> is to return the default length unchanged for a
  medium subject (and at most 45 for a hard, at least 60 for an easy one). For the
  medium subject below and the default 50 it returns nothing: it throws the
  \<open>TypeError\<close> of claim C1.
\<close>

theorem C3_getOptimalSessionLength_medium_throws:
  "getOptimalSessionLength (example_subject ''a'' ''high'' ''medium'') 50 = Inl TypeError"
  by (rule getOptimalSessionLength_throws)

subsection \<open>Proportional allocation\<close>

lemma round_close:
  fixes y :: real
  shows "\<bar>of_int \<lfloor>y * 100 + 1 / 2\<rfloor> / 100 - y\<bar> \<le> 1 / 200"
proof -
  define n where "n = \<lfloor>y * 100 + 1 / 2\<rfloor>"
  have "of_int n \<le> y * 100 + 1 / 2" and "y * 100 + 1 / 2 < of_int n + 1"
    unfolding n_def by linarith+
  then have "of_int n / 100 - y \<le> 1 / 200" and "y - of_int n / 100 \<le> 1 / 200"
    by linarith+
  then show ?thesis unfolding n_def[symmetric] by linarith
qed

lemma toFixed2_close: "\<bar>toFixed2 x - x\<bar> \<le> 1 / 200"
proof (cases "0 \<le> x")
  case True
  with round_close[of x] show ?thesis by (simp add: toFixed2_def)
next
  case False
  have "\<bar>- (of_int \<lfloor>(- x) * 100 + 1 / 2\<rfloor> / 100) - x\<bar>
        = \<bar>of_int \<lfloor>(- x) * 100 + 1 / 2\<rfloor> / 100 - (- x)\<bar>"
    by (simp add: abs_minus_commute)
  with round_close[of "- x"] False show ?thesis by (simp add: toFixed2_def)
qed

lemma foldl_weight: "foldl (\<lambda>sum subj. sum + weight subj) z ws = z + sum_list (map weight ws)"
  by (induction ws arbitrary: z) simp_all

lemma allocatedHours_allocate: "allocatedHours (allocate W T w) = toFixed2 (weight w / W * T)"
  by (simp add: allocate_def Let_def weighted_subject.defs allocation.defs)

lemma sum_list_close:
  "(\<And>x. x \<in> set xs \<Longrightarrow> \<bar>f x - g x\<bar> \<le> d) \<Longrightarrow>
     \<bar>sum_list (map f xs) - sum_list (map g xs)\<bar> \<le> of_nat (length xs) * (d::real)"
proof (induction xs)
  case Nil
  then show ?case by simp
next
  case (Cons a xs)
  have "\<bar>f a - g a\<bar> \<le> d" using Cons.prems by simp
  moreover have "\<bar>sum_list (map f xs) - sum_list (map g xs)\<bar> \<le> of_nat (length xs) * d"
    using Cons by simp
  ultimately show ?case by (simp add: algebra_simps)
qed

lemma sum_list_sort_insert:
  "sum_list (map f (sort_insert cmp x ys)) = f x + sum_list (map (f :: 'a \<Rightarrow> real) ys)"
  by (induction ys) simp_all

lemma sum_list_array_sort:
  "sum_list (map f (array_sort cmp xs)) = sum_list (map (f :: 'a \<Rightarrow> real) xs)"
  by (induction xs) (simp_all add: array_sort_def sum_list_sort_insert)

lemma shares_sum:
  assumes "sum_list (map weight ws) \<noteq> 0"
  shows "sum_list (map (\<lambda>w. weight w / sum_list (map weight ws) * T) ws) = T"
proof -
  have "sum_list (map (\<lambda>w. weight w / W * T) ws) = sum_list (map weight ws) / W * T" for W
    by (induction ws) (simp_all add: add_divide_distrib distrib_right)
  then show ?thesis using assms by simp
qed

lemma total_weight_positive:
  "ws \<noteq> [] \<Longrightarrow> list_all (\<lambda>w. 0 < weight w) ws \<Longrightarrow> 0 < sum_list (map weight ws)"
proof (induction ws)
  case Nil
  then show ?case by simp
next
  case (Cons a ws)
  show ?case
  proof (cases ws)
    case Nil
    with Cons.prems show ?thesis by simp
  next
    case (Cons b bs)
    with Cons.IH Cons.prems have "0 < sum_list (map weight ws)" by simp
    with Cons.prems show ?thesis by simp
  qed
qed

text \<open>
  Claim C2, as the code has it. The claim asks for a sum within \<open>1e-6\<close> of the daily
  hours. Each share is rounded to two decimals (\<open>toFixed(2)\<close>), so three equal subjects
  and 4 hours give 1.33 + 1.33 + 1.33 = 3.99.
\<close>

theorem C2_sum_counterexample:
  "(case calculateSubjectWeights
           [example_subject ''a'' ''low'' ''medium'', example_subject ''b'' ''low'' ''medium'',
            example_subject ''c'' ''low'' ''medium''] tracking_context of
      Inl e \<Rightarrow> False
    | Inr ws \<Rightarrow>
        list_all (\<lambda>w. 0 < weight w) ws
        \<and> map allocatedHours (allocations_of ws 4) = [133 / 100, 133 / 100, 133 / 100]
        \<and> \<bar>sum_list (map allocatedHours (allocations_of ws 4)) - 4\<bar> > 1 / 1000000)"
  by code_simp

text \<open>
  Claim C2, amended. For weighted subjects with positive weights, the allocation step
  of \<open>allocateDailyHours\<close> (proportional shares, each rounded to two decimals, then the
  sort by priority) returns hours whose sum is within 0.005 times the number of subjects
  of the daily hours.
\<close>

theorem C2_allocated_hours_sum:
  assumes "ws \<noteq> []" and "list_all (\<lambda>w. 0 < weight w) ws"
  shows "\<bar>sum_list (map allocatedHours
              (array_sort (\<lambda>a b. by_priority (priority a) (priority b)) (allocations_of ws T))) - T\<bar>
         \<le> of_nat (length ws) / 200"
proof -
  let ?W = "sum_list (map weight ws)"
  have pos: "0 < ?W" using assms by (rule total_weight_positive)
  have eq: "map allocatedHours (allocations_of ws T) = map (\<lambda>w. toFixed2 (weight w / ?W * T)) ws"
    by (simp add: allocations_of_def Let_def foldl_weight allocatedHours_allocate comp_def)
  have "\<bar>sum_list (map (\<lambda>w. toFixed2 (weight w / ?W * T)) ws)
         - sum_list (map (\<lambda>w. weight w / ?W * T) ws)\<bar> \<le> of_nat (length ws) * (1 / 200)"
    by (rule sum_list_close) (rule toFixed2_close)
  then show ?thesis using shares_sum[of ws T] pos by (simp add: sum_list_array_sort eq)
qed

text \<open>The scenario of the specification: a high and hard subject beside a medium and
  medium one, 4 hours a day. The weights are 4.5 and 2, the hours 2.77 and 1.23.\<close>

theorem C2_allocated_hours_sum_witness:
  "\<not> isl (calculateSubjectWeights
             [example_subject ''a'' ''high'' ''hard'', example_subject ''b'' ''medium'' ''medium'']
             tracking_context)
   \<and> projr (calculateSubjectWeights
             [example_subject ''a'' ''high'' ''hard'', example_subject ''b'' ''medium'' ''medium'']
             tracking_context) \<noteq> []
   \<and> list_all (\<lambda>w. 0 < weight w)
        (projr (calculateSubjectWeights
             [example_subject ''a'' ''high'' ''hard'', example_subject ''b'' ''medium'' ''medium'']
             tracking_context))
   \<and> map allocatedHours
        (array_sort (\<lambda>a b. by_priority (priority a) (priority b))
           (allocations_of
              (projr (calculateSubjectWeights
                 [example_subject ''a'' ''high'' ''hard'', example_subject ''b'' ''medium'' ''medium'']
                 tracking_context)) 4)) = [277 / 100, 123 / 100]
   \<and> \<bar>sum_list (map allocatedHours
        (array_sort (\<lambda>a b. by_priority (priority a) (priority b))
           (allocations_of
              (projr (calculateSubjectWeights
                 [example_subject ''a'' ''high'' ''hard'', example_subject ''b'' ''medium'' ''medium'']
                 tracking_context)) 4))) - 4\<bar>
       \<le> of_nat (length (projr (calculateSubjectWeights
             [example_subject ''a'' ''high'' ''hard'', example_subject ''b'' ''medium'' ''medium'']
             tracking_context))) / 200"
proof -
  define ws where "ws = projr (calculateSubjectWeights
             [example_subject ''a'' ''high'' ''hard'', example_subject ''b'' ''medium'' ''medium'']
             tracking_context)"
  have r: "\<not> isl (calculateSubjectWeights
             [example_subject ''a'' ''high'' ''hard'', example_subject ''b'' ''medium'' ''medium'']
             tracking_context)"
    by code_simp
  have ne: "ws \<noteq> []" unfolding ws_def by code_simp
  have pos: "list_all (\<lambda>w. 0 < weight w) ws" unfolding ws_def by code_simp
  have hours: "map allocatedHours
        (array_sort (\<lambda>a b. by_priority (priority a) (priority b)) (allocations_of ws 4))
        = [277 / 100, 123 / 100]"
    unfolding ws_def by code_simp
  from C2_allocated_hours_sum[OF ne pos, of 4] r ne pos hours
  show ?thesis unfolding ws_def by blast
qed

subsection \<open>Input subjects are left alone\<close>

lemma alloc_cells_below:
  "alloc v h = (b, h1) \<Longrightarrow> a < next_free h \<Longrightarrow> cells h1 a = cells h a"
  by (auto simp: alloc_def)

lemma heap_ok_alloc: "heap_ok h \<Longrightarrow> alloc v h = (b, h1) \<Longrightarrow> heap_ok h1"
  by (auto simp: alloc_def heap_ok_def less_Suc_eq)

lemma weigh_subject_copy:
  "weigh_subject c s = Inr w \<Longrightarrow> subject.truncate w = s\<lparr>weight := weight w\<rparr>"
  by (auto simp: weigh_subject_def subject.defs weighted_subject.defs split: sum.splits prod.splits)

lemma heap_frame:
  "calculateSubjectWeights_heap c as h = (r, h') \<Longrightarrow>
     next_free h \<le> next_free h' \<and> (\<forall>a < next_free h. cells h' a = cells h a)"
proof (induction as arbitrary: h r h')
  case Nil
  then show ?case by simp
next
  case (Cons a as)
  show ?case
  proof (cases "read_subject h a")
    case (Inl e)
    with Cons.prems show ?thesis by simp
  next
    case (Inr s)
    note rd = this
    show ?thesis
    proof (cases "weigh_subject c s")
      case (Inl e)
      with Cons.prems rd show ?thesis by simp
    next
      case (Inr w)
      obtain b h1 where al: "alloc (WeightedObj w) h = (b, h1)" by (cases "alloc (WeightedObj w) h")
      obtain r2 h2 where rec: "calculateSubjectWeights_heap c as h1 = (r2, h2)"
        by (cases "calculateSubjectWeights_heap c as h1")
      from Cons.prems rd Inr al rec have h': "h' = h2" by (auto split: sum.splits)
      from Cons.IH[OF rec] have ih: "next_free h1 \<le> next_free h2" "\<forall>a<next_free h1. cells h2 a = cells h1 a" by auto
      from al have n1: "next_free h1 = Suc (next_free h)" by (auto simp: alloc_def)
      show ?thesis using ih n1 h' alloc_cells_below[OF al] by auto
    qed
  qed
qed

lemma heap_result:
  "heap_ok h \<Longrightarrow> valid_refs h as \<Longrightarrow> calculateSubjectWeights_heap c as h = (Inr bs, h') \<Longrightarrow>
     length bs = length as \<and>
     (\<forall>i < length as. cells h (bs ! i) = None \<and>
        (\<exists>s w. read_subject h (as ! i) = Inr s \<and> weigh_subject c s = Inr w
               \<and> cells h' (bs ! i) = Some (WeightedObj w)))"
proof (induction as arbitrary: h bs h')
  case Nil
  then show ?case by simp
next
  case (Cons a as)
  from Cons.prems(3) obtain s where rd: "read_subject h a = Inr s"
    by (cases "read_subject h a") auto
  from Cons.prems(3) rd obtain w where ws: "weigh_subject c s = Inr w"
    by (cases "weigh_subject c s") auto
  obtain b h1 where al: "alloc (WeightedObj w) h = (b, h1)" by (cases "alloc (WeightedObj w) h")
  obtain r2 h2 where rec: "calculateSubjectWeights_heap c as h1 = (r2, h2)"
    by (cases "calculateSubjectWeights_heap c as h1")
  from Cons.prems(3) rd ws al rec obtain bs2 where r2: "r2 = Inr bs2" and bs: "bs = b # bs2" and h': "h' = h2"
    by (cases r2) auto
  have ok1: "heap_ok h1" using heap_ok_alloc[OF Cons.prems(1) al] .
  from al have b: "b = next_free h" and c1: "cells h1 = (cells h)(b \<mapsto> WeightedObj w)"
    and n1: "next_free h1 = Suc (next_free h)"
    by (auto simp: alloc_def)
  have bnone: "cells h b = None" using Cons.prems(1) b by (auto simp: heap_ok_def)
  have v: "list_all (\<lambda>a. cells h a \<noteq> None) as" using Cons.prems(2) by (simp add: valid_refs_def)
  have v1: "valid_refs h1 as" using v c1 by (auto simp: valid_refs_def list_all_iff)
  from Cons.IH[OF ok1 v1 rec[unfolded r2]]
  have len: "length bs2 = length as"
    and ih: "\<forall>i<length as. cells h1 (bs2 ! i) = None \<and>
        (\<exists>s w. read_subject h1 (as ! i) = Inr s \<and> weigh_subject c s = Inr w
               \<and> cells h2 (bs2 ! i) = Some (WeightedObj w))" by auto
  have keep: "cells h2 b = Some (WeightedObj w)"
    using heap_frame[OF rec] c1 n1 b by auto
  have same: "\<And>j. j < length as \<Longrightarrow> read_subject h1 (as ! j) = read_subject h (as ! j)"
  proof -
    fix j assume "j < length as"
    with v have "cells h (as ! j) \<noteq> None" by (auto simp: list_all_length)
    with bnone have "as ! j \<noteq> b" by auto
    then show "read_subject h1 (as ! j) = read_subject h (as ! j)"
      by (simp add: read_subject_def c1)
  qed
  show ?case
  proof (intro conjI allI impI)
    show "length bs = length (a # as)" using len bs by simp
  next
    fix i assume i: "i < length (a # as)"
    show "cells h (bs ! i) = None"
    proof (cases i)
      case 0 then show ?thesis using bs bnone by simp
    next
      case (Suc j)
      with i ih have "cells h1 (bs2 ! j) = None" by auto
      then show ?thesis using Suc bs c1 by (auto split: if_splits)
    qed
    show "\<exists>s w. read_subject h ((a # as) ! i) = Inr s \<and> weigh_subject c s = Inr w
               \<and> cells h' (bs ! i) = Some (WeightedObj w)"
    proof (cases i)
      case 0 then show ?thesis using bs rd ws keep h' by simp
    next
      case (Suc j)
      with i have j: "j < length as" by simp
      with ih obtain s' w' where 
         r: "read_subject h1 (as ! j) = Inr s'" and w: "weigh_subject c s' = Inr w'"
        and k: "cells h2 (bs2 ! j) = Some (WeightedObj w')" by blast
      show ?thesis using Suc bs h' r w k same[OF j] by simp
    qed
  qed
qed

text \<open>
  Claim C10. \<open>calculateSubjectWeights\<close> never writes to an input subject: whether it
  returns or throws, every object that was in the heap before the call is unchanged
  after it; and on a normal return every result is a reference to a new object, the
  enriched copy of its input (the subject's properties with \<open>weight\<close> replaced and
  \<open>adjustments\<close> added).
\<close>

theorem C10_calculateSubjectWeights_frame:
  assumes "heap_ok h" and "valid_refs h as"
    and "calculateSubjectWeights_heap c as h = (r, h')"
  shows "(\<forall>a. cells h a \<noteq> None \<longrightarrow> cells h' a = cells h a)
       \<and> (\<forall>bs. r = Inr bs \<longrightarrow>
            length bs = length as \<and>
            (\<forall>i < length as. cells h (bs ! i) = None \<and>
               (\<exists>s w. read_subject h (as ! i) = Inr s \<and> weigh_subject c s = Inr w
                      \<and> cells h' (bs ! i) = Some (WeightedObj w)
                      \<and> subject.truncate w = s\<lparr>weight := weight w\<rparr>)))"
proof (intro conjI allI impI)
  fix a assume "cells h a \<noteq> None"
  with assms(1) have "a < next_free h" by (simp add: heap_ok_def)
  with heap_frame[OF assms(3)] show "cells h' a = cells h a" by simp
next
  fix bs assume r: "r = Inr bs"
  from heap_result[OF assms(1,2) assms(3)[unfolded r]]
  show "length bs = length as" by simp
next
  fix bs i assume r: "r = Inr bs" and i: "i < length as"
  from heap_result[OF assms(1,2) assms(3)[unfolded r]] i
  show "cells h (bs ! i) = None" by simp
next
  fix bs i assume r: "r = Inr bs" and i: "i < length as"
  from heap_result[OF assms(1,2) assms(3)[unfolded r]] i
  obtain s w where "read_subject h (as ! i) = Inr s" "weigh_subject c s = Inr w"
     "cells h' (bs ! i) = Some (WeightedObj w)" by blast
  then show "\<exists>s w. read_subject h (as ! i) = Inr s \<and> weigh_subject c s = Inr w
                      \<and> cells h' (bs ! i) = Some (WeightedObj w)
                      \<and> subject.truncate w = s\<lparr>weight := weight w\<rparr>"
    using weigh_subject_copy by blast
qed

theorem C10_calculateSubjectWeights_frame_witness:
  "heap_ok example_heap \<and> valid_refs example_heap [0]
   \<and> fst (calculateSubjectWeights_heap tracking_context [0] example_heap) = Inr [1]
   \<and> cells (snd (calculateSubjectWeights_heap tracking_context [0] example_heap)) 0
       = Some (SubjectObj (example_subject ''a'' ''high'' ''medium''))
   \<and> cells example_heap 1 = None
   \<and> (\<exists>w. cells (snd (calculateSubjectWeights_heap tracking_context [0] example_heap)) 1
             = Some (WeightedObj w)
          \<and> subject.truncate w = (example_subject ''a'' ''high'' ''medium'')\<lparr>weight := 3\<rparr>)
   \<and> fst (calculateSubjectWeights_heap default_context [0] example_heap) = Inl TypeError
   \<and> cells (snd (calculateSubjectWeights_heap default_context [0] example_heap)) 0
       = Some (SubjectObj (example_subject ''a'' ''high'' ''medium''))"
proof -
  have ok: "heap_ok example_heap" by (simp add: heap_ok_def example_heap_def)
  have refs: "valid_refs example_heap [0]" by (simp add: valid_refs_def example_heap_def)
  have c0: "cells example_heap 0 = Some (SubjectObj (example_subject ''a'' ''high'' ''medium''))"
    by (simp add: example_heap_def)
  have c1: "cells example_heap 1 = None" by (simp add: example_heap_def)
  have r: "fst (calculateSubjectWeights_heap tracking_context [0] example_heap) = Inr [1]"
    by code_simp
  have e: "fst (calculateSubjectWeights_heap default_context [0] example_heap) = Inl TypeError"
    by code_simp
  note run = C10_calculateSubjectWeights_frame
    [OF ok refs surjective_pairing[of "calculateSubjectWeights_heap tracking_context [0] example_heap"]]
  note thrown = C10_calculateSubjectWeights_frame
    [OF ok refs surjective_pairing[of "calculateSubjectWeights_heap default_context [0] example_heap"]]
  from run c0 have keep: "cells (snd (calculateSubjectWeights_heap tracking_context [0] example_heap)) 0
       = Some (SubjectObj (example_subject ''a'' ''high'' ''medium''))" by simp
  from thrown c0 have keep': "cells (snd (calculateSubjectWeights_heap default_context [0] example_heap)) 0
       = Some (SubjectObj (example_subject ''a'' ''high'' ''medium''))" by simp
  from run r obtain s w where
      rd: "read_subject example_heap ([0] ! 0) = Inr s"
    and w: "cells (snd (calculateSubjectWeights_heap tracking_context [0] example_heap)) ([1] ! 0)
             = Some (WeightedObj w)"
    and ws: "weigh_subject tracking_context s = Inr w"
    and cp: "subject.truncate w = s\<lparr>weight := weight w\<rparr>"
    by fastforce
  from rd have s: "s = example_subject ''a'' ''high'' ''medium''"
    by (simp add: read_subject_def example_heap_def)
  have "weight w = 3" using ws unfolding s
    by (simp add: weigh_subject_def rules_def priority_allocation_def difficulty_adaptation_def
        time_preference_def consecutive_avoidance_def revision_scheduling_def tracking_context_def
        example_subject_def lookup_or_def PRIORITY_WEIGHTS_def DIFFICULTY_WEIGHTS_def
        REVISION_FREQUENCY_def toFixed2_def subject.defs weighted_subject.defs) auto
  with w cp s have "\<exists>w. cells (snd (calculateSubjectWeights_heap tracking_context [0] example_heap)) 1
             = Some (WeightedObj w)
          \<and> subject.truncate w = (example_subject ''a'' ''high'' ''medium'')\<lparr>weight := 3\<rparr>"
    by auto
  with ok refs r keep c1 e keep' show ?thesis by blast
qed

section \<open>Properties of the validator\<close>











text \<open>A session of a subject that is in the \<open>subjects\<close> argument makes the validator
  call \<open>calculateSubjectWeights\<close> without a context, which throws.\<close>

lemma validateSchedule_listed_subject_throws:
  "validateSchedule [example_day [example_session ''a'' ''9:00 AM'' 60]]
     [example_subject ''a'' ''high'' ''hard''] tracking_context = Inl TypeError"
  by code_simp

section \<open>Properties of the scheduler\<close>

subsection \<open>The loop that fills a day\<close>

lemma fill_day_invariant:
  assumes "fill_day ol bl st i se td ls = Some r"
    and "Inv ls"
    and "\<And>ls ls1. Inv ls \<Longrightarrow> fill_step ol bl st i se td ls = Continue_loop ls1 \<Longrightarrow> Inv ls1"
    and "\<And>ls ls1. Inv ls \<Longrightarrow> fill_step ol bl st i se td ls = Break_loop ls1 \<Longrightarrow> Inv ls1"
  shows "case r of Inl e \<Rightarrow> True | Inr ls' \<Rightarrow> Inv ls'"
  using assms
proof (induction ol bl st i se td ls r rule: fill_day.raw_induct)
  case (1 approx ol bl st i se td ls r)
  note body = "1.hyps" and whole = "1.prems"(1) and inv = "1.prems"(2)
  show ?case
  proof (cases "hours_remain ls \<and> currentTime ls < 21 * 60")
    case False
    with body inv show ?thesis by auto
  next
    case True
    show ?thesis
    proof (cases "fill_step ol bl st i se td ls")
      case (Break_loop ls1)
      with True body have "r = Inr ls1" by simp
      with "1.prems"(4)[OF inv Break_loop] show ?thesis by simp
    next
      case (Continue_loop ls1)
      with True body have rec: "approx ol bl st i se td ls1 = Some r" by simp
      from True Continue_loop whole have rec': "fill_day ol bl st i se td ls1 = Some r"
        by (subst (asm) fill_day.simps) simp
      have "Inv ls1" using "1.prems"(3)[OF inv Continue_loop] .
      from "1.IH"[OF rec rec' this "1.prems"(3) "1.prems"(4)] show ?thesis .
    next
      case (Throw e)
      with True body show ?thesis by auto
    qed
  qed
qed (rule assms(1))

lemma fill_day_invariant_Inr:
  assumes "fill_day ol bl st i se td ls = Some (Inr ls')"
    and "Inv ls"
    and "\<And>ls ls1. Inv ls \<Longrightarrow> fill_step ol bl st i se td ls = Continue_loop ls1 \<Longrightarrow> Inv ls1"
    and "\<And>ls ls1. Inv ls \<Longrightarrow> fill_step ol bl st i se td ls = Break_loop ls1 \<Longrightarrow> Inv ls1"
  shows "Inv ls'"
proof -
  have "case (Inr ls' :: error + fill_state) of Inl e \<Rightarrow> True | Inr x \<Rightarrow> Inv x"
    using assms by (rule fill_day_invariant)
  then show ?thesis by simp
qed


lemma fill_step_effect:
  assumes "fill_step ol bl st i se td ls = Continue_loop ls1
           \<or> fill_step ol bl st i se td ls = Break_loop ls1"
  shows "(daySlots ls1 = daySlots ls \<and> currentTime ls1 = currentTime ls
            \<and> lastSubjectId ls1 = lastSubjectId ls)
       \<or> (\<exists>subject len pause.
            \<not> (Str (subject_id subject) = lastSubjectId ls \<and> length td > 1)
            \<and> ls1 = (add_break st pause (add_session st i subject len ls))
                      \<lparr>subjectIndex := subjectIndex (add_break st pause (add_session st i subject len ls)) + 1\<rparr>)"
proof (cases "td = []")
  case True
  with assms show ?thesis by (simp add: fill_step_def)
next
  case False
  define subject where "subject = td ! (subjectIndex ls mod length td)"
  show ?thesis
  proof (cases "Str (subject_id subject) = lastSubjectId ls \<and> length td > 1")
    case True
    with assms False have "ls1 = ls\<lparr>subjectIndex := subjectIndex ls + 1\<rparr>"
      by (auto simp: fill_step_def Let_def subject_def)
    then show ?thesis by simp
  next
    case skip: False
    from assms False skip obtain len where len: "ol subject (sessionLength se) = Inr len"
      by (cases "ol subject (sessionLength se)") (auto simp: fill_step_def Let_def subject_def)
    from assms False skip len obtain pause where pause: "bl subject (breakDuration se) = Inr pause"
      by (cases "bl subject (breakDuration se)") (auto simp: fill_step_def Let_def subject_def)
    from assms False skip len pause
    have "ls1 = (add_break st pause (add_session st i subject len ls))
                      \<lparr>subjectIndex := subjectIndex (add_break st pause (add_session st i subject len ls)) + 1\<rparr>"
      by (auto simp: fill_step_def Let_def subject_def split: if_splits)
    with skip show ?thesis by blast
  qed
qed


lemma is_session_createSessionSlot [simp]: "is_session (createSessionSlot st s t l i)"
  by (simp add: is_session_def createSessionSlot_def)

lemma not_session_createBreakSlot [simp]: "\<not> is_session (createBreakSlot st t l k)"
  by (simp add: is_session_def createBreakSlot_def STUDY_def BREAK_def REVISION_def)

lemma subjectId_createSessionSlot [simp]:
  "subjectId (createSessionSlot st s t l i) = Str (subject_id s)"
  by (simp add: createSessionSlot_def)

lemma duration_createSessionSlot [simp]: "duration (createSessionSlot st s t l i) = l"
  by (simp add: createSessionSlot_def)

lemma duration_createBreakSlot [simp]: "duration (createBreakSlot st t l k) = l"
  by (simp add: createBreakSlot_def)

lemma is_lunch_createSessionSlot [simp]: "\<not> is_lunch (createSessionSlot st s t l i)"
  by (simp add: is_lunch_def createSessionSlot_def)

lemma is_lunch_createBreakSlot [simp]: "is_lunch (createBreakSlot st t l k) = (k = ''lunch'')"
  by (simp add: is_lunch_def createBreakSlot_def)

lemma no_back_to_back_snoc:
  "no_back_to_back (xs @ [x]) = (no_back_to_back xs \<and> (xs = [] \<or> last xs \<noteq> x))"
  by (induction xs rule: no_back_to_back.induct) auto

lemma alternate_add_break: "sessions_alternate (add_break st pause ls) = sessions_alternate ls"
  by (simp add: sessions_alternate_def add_break_def)

lemma alternate_add_session:
  "sessions_alternate ls \<Longrightarrow> Str (subject_id s) \<noteq> lastSubjectId ls \<Longrightarrow>
     sessions_alternate (add_session st i s len ls)"
  by (auto simp: sessions_alternate_def add_session_def Let_def no_back_to_back_snoc)

lemma alternate_subjectIndex:
  "sessions_alternate (ls\<lparr>subjectIndex := n\<rparr>) = sessions_alternate ls"
  by (simp add: sessions_alternate_def)

lemma fill_step_alternate:
  assumes "1 < length td" and "sessions_alternate ls"
    and "fill_step ol bl st i se td ls = Continue_loop ls1 \<or> fill_step ol bl st i se td ls = Break_loop ls1"
  shows "sessions_alternate ls1"
proof -
  from fill_step_effect[OF assms(3)]
  consider (same) "daySlots ls1 = daySlots ls" "lastSubjectId ls1 = lastSubjectId ls"
    | (turn) subject len pause where
        "\<not> (Str (subject_id subject) = lastSubjectId ls \<and> length td > 1)"
        "ls1 = (add_break st pause (add_session st i subject len ls))
                 \<lparr>subjectIndex := subjectIndex (add_break st pause (add_session st i subject len ls)) + 1\<rparr>"
    by blast
  then show ?thesis
  proof cases
    case same
    with assms(2) show ?thesis by (simp add: sessions_alternate_def)
  next
    case turn
    with assms(1) have "Str (subject_id subject) \<noteq> lastSubjectId ls" by simp
    from alternate_add_session[OF assms(2) this] show ?thesis
      by (simp add: turn(2) alternate_subjectIndex alternate_add_break)
  qed
qed





lemma length_sort_insert: "length (sort_insert cmp x ys) = Suc (length ys)"
  by (induction ys) simp_all

lemma length_array_sort: "length (array_sort cmp xs) = length xs"
  by (induction xs) (simp_all add: array_sort_def length_sort_insert)



lemma filter_take_drop: "filter P (take i xs) @ filter P (drop i xs) = filter P xs"
  by (metis append_take_drop_id filter_append)

lemma filter_spliced:
  "\<not> P b \<Longrightarrow> filter P (take i xs @ [b] @ drop i xs) = filter P xs"
  by (simp add: filter_take_drop)

lemma sessions_insertLunch: "filter is_session (insertLunch st xs t) = filter is_session xs"
  by (auto simp: insertLunch_def filter_take_drop split: option.splits)


lemma generateDaySchedule_with_Inr:
  assumes "generateDaySchedule_with optimalLength breakLength calculateDate st dayIndex allocations settings
             = Some (Inr d)"
  obtains ls where
    "fill_day optimalLength breakLength st dayIndex settings
       (array_sort (by_need_and_priority (ctx st)) (selectTodaysSubjects st allocations dayIndex))
       \<lparr>daySlots = [], currentTime = 9 * 60, sessionCount = 0, lastSubjectId = Null,
        remainingHours = dailyHours settings, subjectIndex = 0\<rparr> = Some (Inr ls)"
    and "slots d = insertLunch st (daySlots ls) (currentTime ls)"
proof -
  let ?run = "fill_day optimalLength breakLength st dayIndex settings
       (array_sort (by_need_and_priority (ctx st)) (selectTodaysSubjects st allocations dayIndex))
       \<lparr>daySlots = [], currentTime = 9 * 60, sessionCount = 0, lastSubjectId = Null,
        remainingHours = dailyHours settings, subjectIndex = 0\<rparr>"
  show thesis
  proof (cases ?run)
    case None
    with assms show ?thesis by (simp add: generateDaySchedule_with_def)
  next
    case (Some r)
    show ?thesis
    proof (cases r)
      case (Inl e)
      with Some assms show ?thesis by (simp add: generateDaySchedule_with_def)
    next
      case (Inr ls)
      with Some assms have "slots d = insertLunch st (daySlots ls) (currentTime ls)"
        by (auto simp: generateDaySchedule_with_def Let_def)
      with Some Inr that show ?thesis by blast
    qed
  qed
qed

lemma array_sort_Nil_iff: "array_sort cmp xs = [] \<longleftrightarrow> xs = []"
  using length_array_sort[of cmp xs] by (cases xs) auto

lemma returned_day_Some:
  "returned_day r = Some d \<Longrightarrow> r = Some (Inr d)"
  by (auto simp: returned_day_def split: option.splits sum.splits)

text \<open>As written: the loop is entered only with \<open>dailyHours\<close> in the settings, and its
  first turn calls \<open>getOptimalSessionLength\<close>, which throws.\<close>

lemma generateDaySchedule_as_written:
  "generateDaySchedule calculateDate st dayIndex allocations settings =
     (if (case dailyHours settings of None \<Rightarrow> False | Some h \<Rightarrow> h > 0)
         \<and> selectTodaysSubjects st allocations dayIndex \<noteq> []
      then Some (Inl TypeError)
      else Some (Inr \<lparr>day = int dayIndex + 1, date = calculateDate dayIndex, totalSessions = 0,
                       totalStudyHours = 0, slots = []\<rparr>))"
proof -
  let ?td = "array_sort (by_need_and_priority (ctx st)) (selectTodaysSubjects st allocations dayIndex)"
  let ?start = "\<lparr>daySlots = [], currentTime = 9 * 60, sessionCount = 0, lastSubjectId = Null,
                   remainingHours = dailyHours settings, subjectIndex = 0\<rparr>"
  have step: "fill_step getOptimalSessionLength getBreakDuration st dayIndex settings ?td ?start =
                (if ?td = [] then Break_loop ?start else Throw TypeError)"
    by (simp add: fill_step_def Let_def getOptimalSessionLength_throws)
  have run: "fill_day getOptimalSessionLength getBreakDuration st dayIndex settings ?td ?start =
          (if hours_remain ?start \<and> ?td \<noteq> [] then Some (Inl TypeError) else Some (Inr ?start))"
    by (subst fill_day.simps, simp only: step) simp
  show ?thesis
    unfolding generateDaySchedule_def generateDaySchedule_with_def Let_def run
    by (simp add: hours_remain_def array_sort_Nil_iff insertLunch_def)
qed

lemma generateDaySchedule_no_slots:
  "generateDaySchedule calculateDate st dayIndex allocations settings = Some (Inr d) \<Longrightarrow> slots d = []"
  by (auto simp: generateDaySchedule_as_written split: if_splits)

text \<open>
  Claim C6. Whatever session lengths and break lengths the rules engine returns, a day
  that \<open>generateDaySchedule\<close> returns for two or more distinct selected subjects has
  no session followed, in the day's sequence of sessions, by a session of the same
  subject.
\<close>

theorem C6_no_back_to_back:
  assumes "generateDaySchedule_with optimalLength breakLength calculateDate st dayIndex allocations settings
             = Some (Inr d)"
    and "2 \<le> card (subject_id ` set (selectTodaysSubjects st allocations dayIndex))"
  shows "no_back_to_back (session_ids d)"
proof -
  let ?td = "array_sort (by_need_and_priority (ctx st)) (selectTodaysSubjects st allocations dayIndex)"
  let ?start = "\<lparr>daySlots = [], currentTime = 9 * 60, sessionCount = 0, lastSubjectId = Null,
                   remainingHours = dailyHours settings, subjectIndex = 0\<rparr>"
  from assms(1) obtain ls where
      run: "fill_day optimalLength breakLength st dayIndex settings ?td ?start = Some (Inr ls)"
    and d: "slots d = insertLunch st (daySlots ls) (currentTime ls)"
    by (rule generateDaySchedule_with_Inr)
  have "card (subject_id ` set (selectTodaysSubjects st allocations dayIndex))
          \<le> length (selectTodaysSubjects st allocations dayIndex)"
    by (rule order_trans[OF card_image_le card_length]) simp
  with assms(2) have len: "1 < length ?td" by (simp add: length_array_sort)
  have start: "sessions_alternate ?start" by (simp add: sessions_alternate_def)
  have "sessions_alternate ls"
  proof (rule fill_day_invariant_Inr[where Inv = sessions_alternate, OF run start])
    fix a b
    assume "sessions_alternate a"
      and "fill_step optimalLength breakLength st dayIndex settings ?td a = Continue_loop b"
    then show "sessions_alternate b" using fill_step_alternate[OF len] by blast
  next
    fix a b
    assume "sessions_alternate a"
      and "fill_step optimalLength breakLength st dayIndex settings ?td a = Break_loop b"
    then show "sessions_alternate b" using fill_step_alternate[OF len] by blast
  qed
  then show ?thesis
    by (simp add: sessions_alternate_def Let_def session_ids_def d sessions_insertLunch)
qed


text \<open>Two subjects, sessions of 50 minutes, breaks of 10, 3 hours a day, and a rules
  engine that returns the default lengths: the sessions are a, b, a, b.\<close>

theorem C6_no_back_to_back_witness:
  "map_option (\<lambda>d. map key_of (session_ids d))
     (returned_day
        (generateDaySchedule_with default_length default_length example_date new_scheduler 0
           [example_allocation ''a'' ''high'' ''medium'', example_allocation ''b'' ''medium'' ''medium'']
           (example_settings 50 10 (Some 3))))
     = Some [''a'', ''b'', ''a'', ''b'']
   \<and> 2 \<le> card (subject_id ` set (selectTodaysSubjects new_scheduler
           [example_allocation ''a'' ''high'' ''medium'', example_allocation ''b'' ''medium'' ''medium''] 0))
   \<and> (case returned_day
        (generateDaySchedule_with default_length default_length example_date new_scheduler 0
           [example_allocation ''a'' ''high'' ''medium'', example_allocation ''b'' ''medium'' ''medium'']
           (example_settings 50 10 (Some 3))) of
         None \<Rightarrow> False
       | Some d \<Rightarrow> no_back_to_back (session_ids d))"
proof -
  let ?run = "generateDaySchedule_with default_length default_length example_date new_scheduler 0
           [example_allocation ''a'' ''high'' ''medium'', example_allocation ''b'' ''medium'' ''medium'']
           (example_settings 50 10 (Some 3))"
  have ids: "map_option (\<lambda>d. map key_of (session_ids d)) (returned_day ?run)
               = Some [''a'', ''b'', ''a'', ''b'']"
    by code_simp
  then obtain d where d: "returned_day ?run = Some d" by auto
  have two: "2 \<le> card (subject_id ` set (selectTodaysSubjects new_scheduler
           [example_allocation ''a'' ''high'' ''medium'', example_allocation ''b'' ''medium'' ''medium''] 0))"
    by code_simp
  from C6_no_back_to_back[OF returned_day_Some[OF d] two] ids two d show ?thesis by simp
qed






subsection \<open>The rolling context\<close>

lemma foldl_note_session_days:
  "daysSinceLastStudy (foldl note_session c sl) k =
     (if k \<in> set (map (\<lambda>s. key_of (subjectId s)) (filter is_session sl)) then Some 0
      else daysSinceLastStudy c k)"
  by (induction sl arbitrary: c) (auto simp: note_session_def)

lemma foldl_note_session_last:
  "lastScheduledSubject (foldl note_session c sl) =
     (if filter is_session sl = [] then lastScheduledSubject c
      else subjectId (last (filter is_session sl)))"
  by (induction sl arbitrary: c) (auto simp: note_session_def)

text \<open>
  Claim C5, as the code has it. The claim asks for \<open>daysSinceLastStudy\<close> 0 for a
  subject studied that day. After a first day with one session of subject a, the count
  of a is 1.
\<close>

theorem C5_studied_subject_counterexample:
  "daysSinceLastStudy
     (ctx (updateContextAfterDay new_scheduler 0 (example_day [example_session ''a'' ''9:00 AM'' 60])))
     ''a'' = Some 1"
  by code_simp

text \<open>
  Claim C5, amended. After a day is finalized, \<open>daysSinceLastStudy\<close> is 1 for every
  subject studied that day (set to 0, then incremented with all the others), is
  incremented by exactly 1 for every other tracked subject, and stays absent for an
  untracked one; \<open>lastScheduledSubject\<close> is the subject of the day's last session, and
  is unchanged when the day has no session; \<open>currentDay\<close> is the day's index.
\<close>

theorem C5_context_after_day:
  "daysSinceLastStudy (ctx (updateContextAfterDay st dayIndex d)) k =
     (if k \<in> set (map key_of (session_ids d)) then Some 1
      else map_option (\<lambda>n. n + 1) (daysSinceLastStudy (ctx st) k))
   \<and> lastScheduledSubject (ctx (updateContextAfterDay st dayIndex d)) =
       (if session_ids d = [] then lastScheduledSubject (ctx st) else last (session_ids d))
   \<and> currentDay (updateContextAfterDay st dayIndex d) = int dayIndex"
  by (simp add: updateContextAfterDay_def Let_def foldl_note_session_days foldl_note_session_last
      session_ids_def last_map comp_def)


subsection \<open>The efficiency score of the summary\<close>









section \<open>Properties of export and import\<close>

text \<open>
  Claim C9, as the code has it. The claim asks that importing the exported JSON gives
  the schedule back. A schedule of one day with one session is exported and imported
  into an empty storage: the import reports success, and no plan is stored.
\<close>

theorem C9_round_trip_counterexample:
  "schedule (new_scheduler\<lparr>schedule := [example_day [example_session ''a'' ''9:00 AM'' 60]]\<rparr>) \<noteq> []
   \<and> success (fst (importData
        (Some (exportSchedule_json
           (new_scheduler\<lparr>schedule := [example_day [example_session ''a'' ''9:00 AM'' 60]]\<rparr>)))
        Map.empty))
   \<and> loaded_schedule (snd (importData
        (Some (exportSchedule_json
           (new_scheduler\<lparr>schedule := [example_day [example_session ''a'' ''9:00 AM'' 60]]\<rparr>)))
        Map.empty)) = None"
  by (simp add: importData_def exportSchedule_json_def store_if_present_def get_prop_def
      loaded_schedule_def loadPlan_def new_scheduler_def)

text \<open>
  Claim C9, amended. Importing the text that \<open>exportSchedule('json')\<close> produced through
  \<open>StorageManager.importData\<close> reports success and leaves the storage as it was: the
  text denotes an array of days, which has none of the properties \<open>plan\<close>,
  \<open>progress\<close> and \<open>preferences\<close> that the import reads.
\<close>

theorem C9_import_of_exported_schedule:
  "importData (Some (exportSchedule_json st)) ls
     = (\<lparr>success = True, message = ''Data imported successfully''\<rparr>, ls)"
  by (simp add: importData_def exportSchedule_json_def store_if_present_def get_prop_def)

text \<open>The import reads a schedule only as the \<open>schedule\<close> of a \<open>plan\<close> property.\<close>

lemma import_of_wrapped_plan:
  "loaded_schedule (snd (importData
      (Some (JObj [(''plan'', JObj [(''schedule'', exportSchedule_json st)])])) ls))
   = Some (exportSchedule_json st)"
  by (simp add: importData_def store_if_present_def get_prop_def truthy_def
      loaded_schedule_def loadPlan_def)

end
